theory Spec2Isabelle
  imports Main "HOL-Library.Sublist"
begin

section \<open>Python strings and POSIX paths\<close>

text \<open>
  The mode (\<^verbatim>\<open>mu/modes/codeinpython.py\<close>) works on Python strings and on the functions of
  \<^verbatim>\<open>os.path\<close>. A Python string is modelled as a \<^typ>\<open>string\<close>; a character is a code
  point, and the Unicode tables decide only for code points above 127 (see \<open>uni_word\<close> and
  \<open>uni_space\<close> below). Paths follow \<^verbatim>\<open>posixpath\<close>: the separator is \<^verbatim>\<open>/\<close>.
\<close>

definition sep :: char where
  "sep = CHR ''/''"

text \<open>\<^verbatim>\<open>s.split(c)\<close>: the pieces between the occurrences of \<open>c\<close>; never the empty list.\<close>

fun py_split :: "char \<Rightarrow> string \<Rightarrow> string list" where
  "py_split c [] = [[]]"
| "py_split c (x # xs) =
     (if x = c then [] # py_split c xs
      else (case py_split c xs of
              [] \<Rightarrow> [[x]]
            | w # ws \<Rightarrow> (x # w) # ws))"

text \<open>\<^verbatim>\<open>j.join(xs)\<close>.\<close>

fun py_join :: "string \<Rightarrow> string list \<Rightarrow> string" where
  "py_join j [] = []"
| "py_join j [x] = x"
| "py_join j (x # y # ys) = x @ j @ py_join j (y # ys)"

text \<open>\<^verbatim>\<open>s.rstrip(c)\<close> for a single character \<open>c\<close>.\<close>

definition py_rstrip :: "char \<Rightarrow> string \<Rightarrow> string" where
  "py_rstrip c s = rev (dropWhile (\<lambda>x. x = c) (rev s))"

text \<open>
  \<^verbatim>\<open>posixpath.normpath\<close>: the loop over the components, with \<open>init\<close> telling whether the
  path began with a separator.
\<close>

definition norm_step :: "bool \<Rightarrow> string list \<Rightarrow> string \<Rightarrow> string list" where
  "norm_step init new_comps cmp =
     (if cmp = '''' \<or> cmp = ''.'' then new_comps
      else if cmp \<noteq> ''..'' \<or> (\<not> init \<and> new_comps = [])
              \<or> (new_comps \<noteq> [] \<and> last new_comps = ''..'')
      then new_comps @ [cmp]
      else if new_comps \<noteq> [] then butlast new_comps
      else new_comps)"

definition initial_slashes :: "string \<Rightarrow> nat" where
  "initial_slashes path =
     (if prefix ''/'' path
      then (if prefix ''//'' path \<and> \<not> prefix ''///'' path then 2 else 1)
      else 0)"

definition normpath :: "string \<Rightarrow> string" where
  "normpath path =
     (if path = '''' then ''.''
      else
        let n = initial_slashes path;
            comps = foldl (norm_step (n \<noteq> 0)) [] (py_split sep path);
            p = replicate n sep @ py_join ''/'' comps
        in if p = '''' then ''.'' else p)"

text \<open>\<^verbatim>\<open>os.path.join(a, b)\<close> with one further component.\<close>

definition os_join :: "string \<Rightarrow> string \<Rightarrow> string" where
  "os_join a b =
     (if prefix ''/'' b then b
      else if a = '''' \<or> suffix ''/'' a then a @ b
      else a @ ''/'' @ b)"

text \<open>\<^verbatim>\<open>os.path.split(p)\<close>: head and tail around the last separator.\<close>

definition os_split :: "string \<Rightarrow> string \<times> string" where
  "os_split p =
     (let tail = rev (takeWhile (\<lambda>x. x \<noteq> sep) (rev p));
          head = rev (dropWhile (\<lambda>x. x \<noteq> sep) (rev p))
      in (if head \<noteq> '''' \<and> head \<noteq> replicate (length head) sep
          then py_rstrip sep head else head, tail))"

definition dirname :: "string \<Rightarrow> string" where
  "dirname p = fst (os_split p)"

definition basename :: "string \<Rightarrow> string" where
  "basename p = snd (os_split p)"

text \<open>
  The extension that \<^verbatim>\<open>os.path.splitext(p)[1]\<close> returns: from the last dot of the last
  component, unless only dots come before it there.
\<close>

definition splitext_ext :: "string \<Rightarrow> string" where
  "splitext_ext p =
     (let name = rev (takeWhile (\<lambda>x. x \<noteq> sep) (rev p));
          ext = rev (takeWhile (\<lambda>x. x \<noteq> CHR ''.'') (rev name));
          stem = rev (drop 1 (dropWhile (\<lambda>x. x \<noteq> CHR ''.'') (rev name)))
      in if CHR ''.'' \<in> set name \<and> (\<exists>x \<in> set stem. x \<noteq> CHR ''.'')
         then CHR ''.'' # ext else '''')"

section \<open>The settings object and its environment\<close>

text \<open>
  \<open>env\<close> holds the attributes of \<^verbatim>\<open>CodeInPython_Settings\<close> that the path functions read,
  and what the module takes from outside: \<^verbatim>\<open>get_default_workspace()\<close> of
  \<^verbatim>\<open>mu.modes.base\<close>, \<^verbatim>\<open>os.path.expanduser\<close> and \<^verbatim>\<open>os.path.realpath\<close> (they depend on the
  user database and on the symbolic links of the machine), the Unicode tables behind
  \<^verbatim>\<open>\w\<close> and \<^verbatim>\<open>str.strip\<close> for code points above 127, the translation function \<^verbatim>\<open>_\<close>,
  the text \<^verbatim>\<open>str(err)\<close> of an exception, and the depth Python allows a recursion.
  What the module writes to its \<^verbatim>\<open>logger\<close> is not part of the model.
\<close>

datatype pyexn =
    ValueError string
  | UnboundLocalError string
  | FileNotFoundError string
  | FileExistsError string
  | NotADirectoryError string
  | IsADirectoryError string
  | BadZipFile string
  | SameFileError string
  | KeyError string
  | ParseError
  | TypeError
  | RecursionError

record env =
  default_workspace :: string
  subpath_class :: string
  user_name :: string
  language :: string
  expanduser :: "string \<Rightarrow> string"
  realpath :: "string \<Rightarrow> string"
  uni_word :: "char \<Rightarrow> bool"
  uni_space :: "char \<Rightarrow> bool"
  gettext :: "string \<Rightarrow> string"
  exn_str :: "pyexn \<Rightarrow> string"
  recursion_limit :: nat

definition ZIP_FILENAME :: string where
  "ZIP_FILENAME = ''codeinpython_update.zip''"

definition CONFIG_FILENAME :: string where
  "CONFIG_FILENAME = ''codeinpython_config.xml''"

definition SUBPATH_MAIN :: string where
  "SUBPATH_MAIN = normpath ''codeinpython_env''"

definition SUBPATH_WORKSPACE :: string where
  "SUBPATH_WORKSPACE = normpath ''workspace''"

definition SUBPATH_ARCHIVE :: string where
  "SUBPATH_ARCHIVE = normpath ''archive''"

definition SUBPATH_EXAMPLES :: string where
  "SUBPATH_EXAMPLES = normpath ''examples''"

definition SUBPATH_CUSTOM_EXAMPLES :: string where
  "SUBPATH_CUSTOM_EXAMPLES = normpath ''custom_examples''"

definition SUBPATH_PRIVATE_EXAMPLES :: string where
  "SUBPATH_PRIVATE_EXAMPLES = normpath ''private''"

definition SUBPATH_TEMP :: string where
  "SUBPATH_TEMP = normpath ''temp''"

definition SUBPATH_LIBRARIES :: string where
  "SUBPATH_LIBRARIES = normpath ''code_lib''"

definition SUBPATH_MU_MODULE :: string where
  "SUBPATH_MU_MODULE = normpath ''mu_modules''"

definition SUBPATH_FIRMWARE :: string where
  "SUBPATH_FIRMWARE = normpath ''firmware''"

section \<open>path_clean and the sanitising of parameters\<close>

text \<open>
  \<^verbatim>\<open>path_clean(path_to_clean, lowercase, real)\<close>. \<^verbatim>\<open>os.path.normcase\<close> is the identity
  on POSIX.
\<close>

definition path_clean_opts :: "env \<Rightarrow> string \<Rightarrow> bool \<Rightarrow> bool \<Rightarrow> string" where
  "path_clean_opts e path_to_clean lowercase real =
     (if path_to_clean = '''' then ''''
      else
        let clean_path = normpath path_to_clean;
            clean_path = expanduser e clean_path
        in if real then realpath e clean_path else clean_path)"

definition path_clean :: "env \<Rightarrow> string \<Rightarrow> string" where
  "path_clean e path_to_clean = path_clean_opts e path_to_clean False True"

text \<open>
  The white space of \<^verbatim>\<open>str.strip()\<close> and the class \<^verbatim>\<open>[-\w.]\<close> of the regular expression
  \<^verbatim>\<open>(?u)[^-\w.]\<close>. Below 128 both are fixed; above, the Unicode tables decide.
\<close>

definition is_ascii :: "char \<Rightarrow> bool" where
  "is_ascii c = ((of_char c :: nat) < 128)"

definition is_space :: "env \<Rightarrow> char \<Rightarrow> bool" where
  "is_space e c =
     (if is_ascii c
      then (let n = (of_char c :: nat) in (9 \<le> n \<and> n \<le> 13) \<or> (28 \<le> n \<and> n \<le> 32))
      else uni_space e c)"

definition is_word :: "env \<Rightarrow> char \<Rightarrow> bool" where
  "is_word e c =
     (if is_ascii c
      then (let n = (of_char c :: nat)
            in (48 \<le> n \<and> n \<le> 57) \<or> (65 \<le> n \<and> n \<le> 90) \<or> (97 \<le> n \<and> n \<le> 122) \<or> n = 95)
      else uni_word e c)"

definition keep_char :: "env \<Rightarrow> char \<Rightarrow> bool" where
  "keep_char e c = (c = CHR ''-'' \<or> is_word e c \<or> c = CHR ''.'')"

definition py_strip :: "env \<Rightarrow> string \<Rightarrow> string" where
  "py_strip e s = rev (dropWhile (is_space e) (rev (dropWhile (is_space e) s)))"

definition replace_space :: "string \<Rightarrow> string" where
  "replace_space s = map (\<lambda>c. if c = CHR '' '' then CHR ''_'' else c) s"

text \<open>
  The body of the second loop of \<^verbatim>\<open>__path_create\<close>:
  \<^verbatim>\<open>s = str(element).strip().replace(" ", "_")\<close>, then
  \<^verbatim>\<open>re.sub(r"(?u)[^-\w.]", "", s)\<close>.
\<close>

definition sanitize :: "env \<Rightarrow> string \<Rightarrow> string" where
  "sanitize e element = filter (keep_char e) (replace_space (py_strip e element))"

text \<open>
  The first loop of \<^verbatim>\<open>__path_create\<close>: a parameter that is \<^verbatim>\<open>None\<close> is skipped, every
  other one is normalised and cut at the separators.
\<close>

fun params_separate :: "string option list \<Rightarrow> string list" where
  "params_separate [] = []"
| "params_separate (None # ps) = params_separate ps"
| "params_separate (Some element # ps) = py_split sep (normpath element) @ params_separate ps"

definition path_params :: "env \<Rightarrow> string option list \<Rightarrow> string list" where
  "path_params e parameters = map (sanitize e) (params_separate parameters)"

section \<open>The places and __path_create\<close>

definition APPEND_PY :: string where
  "APPEND_PY = ''append py file''"

text \<open>The dictionary \<^verbatim>\<open>path_struct\<close>, in the order of the source.\<close>

definition path_struct :: "env \<Rightarrow> string list \<Rightarrow> (string \<times> string list) list" where
  "path_struct e params =
     [(''main'', [default_workspace e, SUBPATH_MAIN] @ params),
      (''workspace'', [default_workspace e, SUBPATH_MAIN, SUBPATH_WORKSPACE] @ params),
      (''class'',
         [default_workspace e, SUBPATH_MAIN, SUBPATH_WORKSPACE, subpath_class e] @ params),
      (''student'',
         [default_workspace e, SUBPATH_MAIN, SUBPATH_WORKSPACE, subpath_class e, user_name e]
         @ params),
      (''student file'',
         [default_workspace e, SUBPATH_MAIN, SUBPATH_WORKSPACE, subpath_class e, user_name e]
         @ params @ [''append py file'']),
      (''student private'',
         [default_workspace e, SUBPATH_MAIN, SUBPATH_WORKSPACE, subpath_class e, user_name e,
          SUBPATH_PRIVATE_EXAMPLES] @ params),
      (''student private file'',
         [default_workspace e, SUBPATH_MAIN, SUBPATH_WORKSPACE, subpath_class e, user_name e,
          SUBPATH_PRIVATE_EXAMPLES] @ params @ [''append py file'']),
      (''examples'', [default_workspace e, SUBPATH_MAIN, SUBPATH_EXAMPLES] @ params),
      (''custom examples'',
         [default_workspace e, SUBPATH_MAIN, SUBPATH_CUSTOM_EXAMPLES] @ params),
      (''zip install'', [default_workspace e, SUBPATH_MAIN] @ params),
      (''zip install default file'', [default_workspace e, SUBPATH_MAIN, ZIP_FILENAME]),
      (''zip_archive'', [default_workspace e, SUBPATH_MAIN, SUBPATH_ARCHIVE] @ params),
      (''zip archive file'',
         [default_workspace e, SUBPATH_MAIN, SUBPATH_ARCHIVE, ZIP_FILENAME]),
      (''temp'', [default_workspace e, SUBPATH_MAIN, SUBPATH_TEMP] @ params),
      (''libraries'', [default_workspace e, SUBPATH_MAIN, SUBPATH_LIBRARIES] @ params),
      (''firmware'', [default_workspace e, SUBPATH_MAIN, SUBPATH_FIRMWARE] @ params),
      (''mu_modules'', [default_workspace e, SUBPATH_MAIN, SUBPATH_MU_MODULE] @ params)]"

text \<open>One round of the loop that assembles the path from the entries of the place.\<close>

definition assemble_step :: "string \<Rightarrow> string \<Rightarrow> string" where
  "assemble_step path element =
     (if element = ''append py file''
      then os_join path (snd (os_split path) @ ''.py'')
      else os_join path element)"

definition path_create :: "env \<Rightarrow> string \<Rightarrow> string option list \<Rightarrow> pyexn + string" where
  "path_create e place parameters =
     (case map_of (path_struct e (path_params e parameters)) place of
        Some path_subelements \<Rightarrow> Inr (path_clean e (foldl assemble_step '''' path_subelements))
      | None \<Rightarrow> Inl (ValueError place))"

text \<open>
  \<^verbatim>\<open>valid_path\<close> and \<^verbatim>\<open>path_get\<close>. \<^verbatim>\<open>str.startswith\<close> is the prefix order on strings. The
  message that \<^verbatim>\<open>valid_path\<close> writes to the log when it refuses is not part of the result.
\<close>

definition valid_path :: "env \<Rightarrow> string \<Rightarrow> bool \<Rightarrow> pyexn + bool" where
  "valid_path e path_input allow_main =
     (case path_create e ''main'' [] of
        Inl err \<Rightarrow> Inl err
      | Inr path_limit \<Rightarrow>
          let path_to_check = path_clean e path_input
          in if allow_main then Inr (prefix path_limit path_to_check)
             else Inr (prefix path_limit (fst (os_split path_to_check))))"

definition path_get :: "env \<Rightarrow> string \<Rightarrow> string option list \<Rightarrow> pyexn + string" where
  "path_get e place parameters =
     (case path_create e place parameters of
        Inl err \<Rightarrow> Inl err
      | Inr path_created \<Rightarrow>
          (case valid_path e path_created True of
             Inl err \<Rightarrow> Inl err
           | Inr ok \<Rightarrow> if ok then Inr path_created else Inr ''''))"

section \<open>A machine without symbolic links\<close>

text \<open>
  For concrete runs: a POSIX machine whose working directory and only home directory is
  \<open>home\<close>, and that has no symbolic link, so that \<^verbatim>\<open>realpath\<close> is \<^verbatim>\<open>abspath\<close>. No code
  point above 127 counts as a letter or as white space, the interface is not translated.
\<close>

definition expanduser_home :: "string \<Rightarrow> string \<Rightarrow> string" where
  "expanduser_home home path =
     (if \<not> prefix ''~'' path then path
      else if takeWhile (\<lambda>x. x \<noteq> sep) (drop 1 path) = ''''
      then (let r = py_rstrip sep home @ dropWhile (\<lambda>x. x \<noteq> sep) (drop 1 path)
            in if r = '''' then ''/'' else r)
      else path)"

definition realpath_nolinks :: "string \<Rightarrow> string \<Rightarrow> string" where
  "realpath_nolinks cwd path = normpath (os_join cwd path)"

definition posix_env :: "string \<Rightarrow> string \<Rightarrow> string \<Rightarrow> string \<Rightarrow> env" where
  "posix_env workspace cls usr home =
     \<lparr> default_workspace = workspace, subpath_class = cls, user_name = usr,
       language = ''pl'',
       expanduser = expanduser_home home, realpath = realpath_nolinks home,
       uni_word = (\<lambda>c. False), uni_space = (\<lambda>c. False),
       gettext = (\<lambda>s. s), exn_str = (\<lambda>x. ''''), recursion_limit = 1000 \<rparr>"

definition example_env :: env where
  "example_env = posix_env ''/h/mu_code'' ''my_school'' '''' ''/h''"

text \<open>
  Modelled on the words of the specification: a path lies inside a root when it is the root
  or continues it after a separator.
\<close>

definition path_inside :: "string \<Rightarrow> string \<Rightarrow> bool" where
  "path_inside root p = (p = root \<or> prefix (root @ ''/'') p)"

section \<open>XML elements and xml_get_with_lang\<close>

text \<open>
  An element of \<^verbatim>\<open>xml.etree.ElementTree\<close>: its tag, its \<^verbatim>\<open>lang\<close> attribute (the only one
  the module reads; \<^verbatim>\<open>element.get("lang")\<close> is \<^verbatim>\<open>None\<close> without it), its text (\<^verbatim>\<open>None\<close>
  for an element without text) and its children in document order.
\<close>

datatype element =
  Element (el_tag: string) (el_lang: "string option") (el_text: "string option")
    (el_children: "element list")

text \<open>
  The first loop of \<^verbatim>\<open>xml_get_with_lang\<close>; \<open>acc\<close> is \<^verbatim>\<open>lang_best_fit\<close>. The first
  branch is the \<^verbatim>\<open>break\<close>, the second the \<^verbatim>\<open>continue\<close>.
\<close>

fun find_best_fit ::
  "element list \<Rightarrow> string \<Rightarrow> string option \<Rightarrow> string \<Rightarrow> string option \<Rightarrow> string option" where
  "find_best_fit [] name lang default_lang acc = acc"
| "find_best_fit (element # rest) name lang default_lang acc =
     (if el_tag element = name then
        (let which_lang = el_lang element
         in if which_lang = lang then lang
            else if which_lang = Some default_lang then find_best_fit rest name lang default_lang (Some default_lang)
            else if acc = None then find_best_fit rest name lang default_lang which_lang
            else find_best_fit rest name lang default_lang acc)
      else find_best_fit rest name lang default_lang acc)"

text \<open>\<^verbatim>\<open>"{}".format(x)\<close> of a text that may be \<^verbatim>\<open>None\<close>.\<close>

definition fmt :: "string option \<Rightarrow> string" where
  "fmt t = (case t of None \<Rightarrow> ''None'' | Some x \<Rightarrow> x)"

text \<open>The second loop; \<open>result\<close> is the variable of the same name.\<close>

fun collect_lang ::
  "element list \<Rightarrow> string \<Rightarrow> string option \<Rightarrow> string \<Rightarrow> string option \<Rightarrow> string option" where
  "collect_lang [] name lang_best_fit separator result = result"
| "collect_lang (element # rest) name lang_best_fit separator result =
     (if el_tag element = name \<and> el_lang element = lang_best_fit then
        (case result of
           None \<Rightarrow> collect_lang rest name lang_best_fit separator (el_text element)
         | Some r \<Rightarrow>
             collect_lang rest name lang_best_fit separator
               (Some (r @ separator @ fmt (el_text element))))
      else collect_lang rest name lang_best_fit separator result)"

definition xml_get_with_lang ::
  "element \<Rightarrow> string \<Rightarrow> string option \<Rightarrow> string \<Rightarrow> string \<Rightarrow> string option" where
  "xml_get_with_lang child name lang default_lang separator =
     collect_lang (el_children child) name
       (find_best_fit (el_children child) name lang default_lang None) separator None"

section \<open>Files, archives and the file system\<close>

text \<open>
  What a regular file holds, as far as the module looks at it: a zip archive with its
  members in order (\<^verbatim>\<open>zipfile.is_zipfile\<close> holds exactly for these; a member whose name
  ends in a separator is a directory), a well-formed XML document with its root element
  (\<^verbatim>\<open>ET.parse\<close> succeeds exactly for these), or other bytes.
\<close>

datatype blob =
    Bytes string
  | Xml element
  | Archive "(string \<times> blob) list"

datatype node = Dir | File blob

datatype fsop =
    Op_rmtree string
  | Op_remove string
  | Op_mkdir string
  | Op_write string

text \<open>
  The state: the file system as an association list from paths to nodes, the changes made
  to it so far, and the message boxes shown (title and text). Paths are compared as
  strings: every path the module hands to the file system is absolute and canonical (it
  comes from \<^verbatim>\<open>path_clean\<close>) or empty, and there are no links. The root directory is an
  entry like any other.
\<close>

record sys =
  files :: "(string \<times> node) list"
  oplog :: "fsop list"
  dialogs :: "(string \<times> string) list"

text \<open>A call either returns a value or raises; in both cases the state goes on.\<close>

datatype 'a res = Ok 'a sys | Raise pyexn sys

definition stat :: "sys \<Rightarrow> string \<Rightarrow> node option" where
  "stat s p = map_of (files s) p"

definition exists :: "sys \<Rightarrow> string \<Rightarrow> bool" where
  "exists s p = (stat s p \<noteq> None)"

definition isdir :: "sys \<Rightarrow> string \<Rightarrow> bool" where
  "isdir s p = (stat s p = Some Dir)"

definition isfile :: "sys \<Rightarrow> string \<Rightarrow> bool" where
  "isfile s p = (case stat s p of Some (File b) \<Rightarrow> True | _ \<Rightarrow> False)"

definition inside_dir :: "string \<Rightarrow> string \<Rightarrow> bool" where
  "inside_dir p k = (k \<noteq> p \<and> prefix (if suffix ''/'' p then p else p @ ''/'') k)"

text \<open>\<^verbatim>\<open>shutil.rmtree(p, ignore_errors=True)\<close>: nothing happens unless \<open>p\<close> is a directory.\<close>

definition rmtree :: "string \<Rightarrow> sys \<Rightarrow> sys" where
  "rmtree p s =
     (if isdir s p
      then s\<lparr>files := filter (\<lambda>(k, n). k \<noteq> p \<and> \<not> inside_dir p k) (files s),
             oplog := oplog s @ [Op_rmtree p]\<rparr>
      else s)"

definition os_remove :: "string \<Rightarrow> sys \<Rightarrow> unit res" where
  "os_remove p s =
     (case stat s p of
        None \<Rightarrow> Raise (FileNotFoundError p) s
      | Some Dir \<Rightarrow> Raise (IsADirectoryError p) s
      | Some (File b) \<Rightarrow>
          Ok () (s\<lparr>files := filter (\<lambda>(k, n). k \<noteq> p) (files s),
                    oplog := oplog s @ [Op_remove p]\<rparr>))"

definition parent_error :: "sys \<Rightarrow> string \<Rightarrow> pyexn" where
  "parent_error s p =
     (if exists s (dirname p) then NotADirectoryError p else FileNotFoundError p)"

definition mkdir :: "string \<Rightarrow> sys \<Rightarrow> unit res" where
  "mkdir p s =
     (if exists s p then Raise (FileExistsError p) s
      else if \<not> isdir s (dirname p) then Raise (parent_error s p) s
      else Ok () (s\<lparr>files := files s @ [(p, Dir)], oplog := oplog s @ [Op_mkdir p]\<rparr>))"

text \<open>Opening \<open>p\<close> for writing and writing \<open>b\<close>.\<close>

definition write_file :: "string \<Rightarrow> blob \<Rightarrow> sys \<Rightarrow> unit res" where
  "write_file p b s =
     (if isdir s p then Raise (IsADirectoryError p) s
      else if \<not> isdir s (dirname p) then Raise (parent_error s p) s
      else Ok () (s\<lparr>files := filter (\<lambda>(k, n). k \<noteq> p) (files s) @ [(p, File b)],
                    oplog := oplog s @ [Op_write p]\<rparr>))"

text \<open>\<^verbatim>\<open>os.listdir(p)\<close>: the names of the entries directly in \<open>p\<close>.\<close>

definition listdir :: "sys \<Rightarrow> string \<Rightarrow> string list" where
  "listdir s p = map (\<lambda>(k, n). basename k) (filter (\<lambda>(k, n). k \<noteq> p \<and> dirname k = p) (files s))"

text \<open>
  \<^verbatim>\<open>os.makedirs(name)\<close>, with \<^verbatim>\<open>exist_ok=False\<close>: the missing directories above \<open>name\<close>
  first, then \<open>name\<close> itself.
\<close>

definition makedirs_parts :: "string \<Rightarrow> string \<times> string" where
  "makedirs_parts name =
     (let (head, tail) = os_split name
      in if tail = '''' then os_split head else (head, tail))"

function makedirs :: "string \<Rightarrow> sys \<Rightarrow> unit res" where
  "makedirs name s =
     (if fst (makedirs_parts name) \<noteq> '''' \<and> snd (makedirs_parts name) \<noteq> ''''
         \<and> \<not> exists s (fst (makedirs_parts name))
      then
        (case makedirs (fst (makedirs_parts name)) s of
           Ok u s' \<Rightarrow> if snd (makedirs_parts name) = ''.'' then Ok () s' else mkdir name s'
         | Raise err s' \<Rightarrow>
             (case err of
                FileExistsError x \<Rightarrow>
                  if snd (makedirs_parts name) = ''.'' then Ok () s' else mkdir name s'
              | _ \<Rightarrow> Raise err s'))
      else mkdir name s)"
  by pat_completeness auto

lemma os_split_concat:
  "rev (dropWhile (\<lambda>x. x \<noteq> sep) (rev p)) @ rev (takeWhile (\<lambda>x. x \<noteq> sep) (rev p)) = p"
proof -
  have "takeWhile (\<lambda>x. x \<noteq> sep) (rev p) @ dropWhile (\<lambda>x. x \<noteq> sep) (rev p) = rev p"
    by simp
  then have "rev (takeWhile (\<lambda>x. x \<noteq> sep) (rev p) @ dropWhile (\<lambda>x. x \<noteq> sep) (rev p)) = p"
    by (simp only: rev_rev_ident)
  then show ?thesis by (simp only: rev_append)
qed

lemma length_rstrip: "length (py_rstrip c s) \<le> length s"
  unfolding py_rstrip_def using length_dropWhile_le[of "\<lambda>x. x = c" "rev s"] by simp

lemma length_split_raw: "length (rev (dropWhile (\<lambda>x. x \<noteq> sep) (rev p))) \<le> length p"
  using length_dropWhile_le[of "\<lambda>x. x \<noteq> sep" "rev p"] by simp

lemma os_split_head_le: "length (fst (os_split p)) \<le> length p"
  using length_split_raw[of p] length_rstrip[of sep "rev (dropWhile (\<lambda>x. x \<noteq> sep) (rev p))"]
  unfolding os_split_def Let_def by (simp split: if_splits del: length_rev)

lemma os_split_head_less:
  assumes "snd (os_split p) \<noteq> ''''"
  shows "length (fst (os_split p)) < length p"
proof -
  let ?h = "rev (dropWhile (\<lambda>x. x \<noteq> sep) (rev p))"
  let ?t = "rev (takeWhile (\<lambda>x. x \<noteq> sep) (rev p))"
  from assms have t: "?t \<noteq> []" by (simp add: os_split_def Let_def)
  have "length ?h + length ?t = length p"
    using os_split_concat[of p] by (metis length_append)
  moreover from t have "0 < length ?t" by blast
  ultimately have "length ?h < length p" by linarith
  then show ?thesis
    using length_rstrip[of sep ?h] unfolding os_split_def Let_def
    by (simp split: if_splits del: length_rev)
qed

lemma makedirs_parts_less:
  assumes "snd (makedirs_parts name) \<noteq> ''''"
  shows "length (fst (makedirs_parts name)) < length name"
proof (cases "snd (os_split name) = ''''")
  case True
  then have eq: "makedirs_parts name = os_split (fst (os_split name))"
    by (simp add: makedirs_parts_def split_beta)
  with assms have "length (fst (makedirs_parts name)) < length (fst (os_split name))"
    using os_split_head_less[of "fst (os_split name)"] by simp
  then show ?thesis using os_split_head_le[of name] by simp
next
  case False
  then have "makedirs_parts name = os_split name"
    by (simp add: makedirs_parts_def split_beta)
  then show ?thesis using False os_split_head_less[of name] by simp
qed

termination makedirs
  by (relation "measure (\<lambda>(name, s). length name)") (simp_all add: makedirs_parts_less)

declare makedirs.simps [simp del]

text \<open>
  \<^verbatim>\<open>shutil.copy2(src, dest)\<close>: into \<open>dest\<close> when that is a directory; a file copied onto
  itself is \<^verbatim>\<open>SameFileError\<close>.
\<close>

definition copy2 :: "string \<Rightarrow> string \<Rightarrow> sys \<Rightarrow> unit res" where
  "copy2 src dest s =
     (let dst = (if isdir s dest then os_join dest (basename src) else dest)
      in if src = dst then Raise (SameFileError src) s
         else (case stat s src of
                 None \<Rightarrow> Raise (FileNotFoundError src) s
               | Some Dir \<Rightarrow> Raise (IsADirectoryError src) s
               | Some (File b) \<Rightarrow> write_file dst b s))"

text \<open>
  \<^verbatim>\<open>recursive_overwrite(src, dest, ignore)\<close>. The first argument counts the calls Python
  still allows inside one another; at the limit the call raises \<^verbatim>\<open>RecursionError\<close>. In the
  handler of \<^verbatim>\<open>SameFileError\<close>, \<^verbatim>\<open>src.replace(dest)\<close> is \<^verbatim>\<open>str.replace\<close> with one argument,
  a \<^verbatim>\<open>TypeError\<close>.
\<close>

fun recursive_overwrite ::
    "nat \<Rightarrow> string \<Rightarrow> string \<Rightarrow> (string \<Rightarrow> string list \<Rightarrow> string set) option \<Rightarrow> sys \<Rightarrow> unit res"
  and overwrite_files ::
    "nat \<Rightarrow> string \<Rightarrow> string \<Rightarrow> (string \<Rightarrow> string list \<Rightarrow> string set) option \<Rightarrow> string set
       \<Rightarrow> string list \<Rightarrow> sys \<Rightarrow> unit res" where
  "recursive_overwrite 0 src dest ignore s = Raise RecursionError s"
| "recursive_overwrite (Suc depth) src dest ignore s =
     (if isdir s src then
        (case (if \<not> isdir s dest then makedirs dest s else Ok () s) of
           Raise err s' \<Rightarrow> Raise err s'
         | Ok u s' \<Rightarrow>
             (let fs = listdir s' src;
                  ignored = (case ignore of Some f \<Rightarrow> f src fs | None \<Rightarrow> {})
              in overwrite_files depth src dest ignore ignored fs s'))
      else
        (case (if \<not> isdir s (dirname dest) then makedirs (dirname dest) s else Ok () s) of
           Raise err s' \<Rightarrow>
             (case err of SameFileError x \<Rightarrow> Raise TypeError s' | _ \<Rightarrow> Raise err s')
         | Ok u s' \<Rightarrow>
             (case copy2 src dest s' of
                Raise err s'' \<Rightarrow>
                  (case err of SameFileError x \<Rightarrow> Raise TypeError s'' | _ \<Rightarrow> Raise err s'')
              | Ok u s'' \<Rightarrow> Ok () s'')))"
| "overwrite_files depth src dest ignore ignored [] s = Ok () s"
| "overwrite_files depth src dest ignore ignored (f # fs) s =
     (if f \<notin> ignored then
        (case recursive_overwrite depth (os_join src f) (os_join dest f) ignore s of
           Raise err s' \<Rightarrow> Raise err s'
         | Ok u s' \<Rightarrow> overwrite_files depth src dest ignore ignored fs s')
      else overwrite_files depth src dest ignore ignored fs s)"

section \<open>Zip archives\<close>

text \<open>
  \<^verbatim>\<open>ZipFile.open(name)\<close> takes the last member of that name. \<^verbatim>\<open>ZipFile.extractall(path)\<close>
  writes every member below \<open>path\<close>, after dropping the empty, \<^verbatim>\<open>.\<close> and \<^verbatim>\<open>..\<close> parts
  of its name.
\<close>

definition zip_member :: "(string \<times> blob) list \<Rightarrow> string \<Rightarrow> blob option" where
  "zip_member members name = map_of (rev members) name"

definition extract_member :: "string \<Rightarrow> string \<times> blob \<Rightarrow> sys \<Rightarrow> unit res" where
  "extract_member path m s =
     (let arcname = py_join ''/''
            (filter (\<lambda>x. x \<noteq> '''' \<and> x \<noteq> ''.'' \<and> x \<noteq> ''..'') (py_split sep (fst m)));
          targetpath = normpath (os_join path arcname);
          upperdirs = dirname targetpath
      in case (if upperdirs \<noteq> '''' \<and> \<not> exists s upperdirs then makedirs upperdirs s
               else Ok () s) of
           Raise err s' \<Rightarrow> Raise err s'
         | Ok u s' \<Rightarrow>
             if suffix ''/'' (fst m)
             then (if \<not> isdir s' targetpath then mkdir targetpath s' else Ok () s')
             else write_file targetpath (snd m) s')"

fun extractall :: "string \<Rightarrow> (string \<times> blob) list \<Rightarrow> sys \<Rightarrow> unit res" where
  "extractall path [] s = Ok () s"
| "extractall path (m # ms) s =
     (case extract_member path m s of
        Raise err s' \<Rightarrow> Raise err s'
      | Ok u s' \<Rightarrow> extractall path ms s')"

text \<open>\<^verbatim>\<open>zipfile.ZipFile(path, "r")\<close>: the members of the archive, or the exception.\<close>

definition open_zip :: "sys \<Rightarrow> string \<Rightarrow> pyexn + (string \<times> blob) list" where
  "open_zip s path =
     (case stat s path of
        None \<Rightarrow> Inl (FileNotFoundError path)
      | Some Dir \<Rightarrow> Inl (IsADirectoryError path)
      | Some (File b) \<Rightarrow>
          (case b of Archive members \<Rightarrow> Inr members | _ \<Rightarrow> Inl (BadZipFile path)))"

definition is_zipfile :: "sys \<Rightarrow> string \<Rightarrow> bool" where
  "is_zipfile s path =
     (case stat s path of Some (File (Archive members)) \<Rightarrow> True | _ \<Rightarrow> False)"

text \<open>\<^verbatim>\<open>ET.parse(config).getroot()\<close> on what a member holds.\<close>

definition xml_parse :: "blob \<Rightarrow> pyexn + element" where
  "xml_parse b = (case b of Xml root \<Rightarrow> Inr root | _ \<Rightarrow> Inl ParseError)"

section \<open>Versions and zip_check_content\<close>

record version =
  release :: "string option"
  date :: "string option"
  description :: "string option"

text \<open>The loop of \<^verbatim>\<open>xml_get_version\<close> over the children of the root.\<close>

fun read_release :: "element list \<Rightarrow> version \<Rightarrow> version" where
  "read_release [] result = result"
| "read_release (child # rest) result =
     (let result = (if el_tag child = ''release'' then result\<lparr>release := el_text child\<rparr>
                    else result);
          result = (if el_tag child = ''release_date'' then result\<lparr>date := el_text child\<rparr>
                    else result)
      in read_release rest result)"

text \<open>
  \<^verbatim>\<open>xml_get_version(source)\<close>; \<open>None\<close> stands for the call with the empty string, \<open>Some b\<close>
  for an open member holding \<open>b\<close>.
\<close>

definition xml_get_version :: "env \<Rightarrow> blob option \<Rightarrow> pyexn + (bool \<times> version)" where
  "xml_get_version e source =
     (let result = \<lparr>release = Some ''----'', date = Some ''----'', description = Some ''----''\<rparr>
      in case source of
           None \<Rightarrow> Inr (False, result)
         | Some b \<Rightarrow>
             (case xml_parse b of
                Inl err \<Rightarrow> Inl err
              | Inr root \<Rightarrow>
                  (let result = read_release (el_children root) result;
                       result = result\<lparr>description :=
                         xml_get_with_lang root ''description'' (Some (language e)) ''en'' [CHR 0x0A]\<rparr>
                   in Inr (True, result))))"

definition zip_get_version :: "env \<Rightarrow> sys \<Rightarrow> string \<Rightarrow> pyexn + (bool \<times> version)" where
  "zip_get_version e s source =
     (if isfile s source \<and> splitext_ext source = ''.zip'' then
        (case open_zip s source of
           Inl err \<Rightarrow> Inl err
         | Inr members \<Rightarrow>
             if CONFIG_FILENAME \<in> set (map fst members)
             then (case zip_member members CONFIG_FILENAME of
                     None \<Rightarrow> Inl (KeyError CONFIG_FILENAME)
                   | Some config \<Rightarrow> xml_get_version e (Some config))
             else xml_get_version e None)
      else xml_get_version e None)"

text \<open>
  \<^verbatim>\<open>zip_check_content(input_path)\<close>. The function assigns to \<^verbatim>\<open>_\<close> (in
  \<^verbatim>\<open>valid, _ = self.zip_get_version(src)\<close>), so \<^verbatim>\<open>_\<close> is a local variable of the whole
  body, and the branch for a file that is no zip archive, which calls \<^verbatim>\<open>_(...)\<close> before
  any assignment, raises \<^verbatim>\<open>UnboundLocalError\<close>.
\<close>

definition zip_check_content :: "env \<Rightarrow> sys \<Rightarrow> string \<Rightarrow> pyexn + bool" where
  "zip_check_content e s input_path =
     (case (if input_path \<noteq> '''' then Inr (path_clean e input_path)
            else path_get e ''zip install default file'' []) of
        Inl err \<Rightarrow> Inl err
      | Inr src \<Rightarrow>
          if \<not> isfile s src then Inr False
          else if is_zipfile s src then
            (case zip_get_version e s src of
               Inl err \<Rightarrow> Inl err
             | Inr (valid, v) \<Rightarrow> if valid then Inr True else Inr False)
          else Inl (UnboundLocalError ''_''))"

section \<open>update_data_from_zip\<close>

definition destination :: string where
  "destination = ''''"

text \<open>\<^verbatim>\<open>QtWidgets.QMessageBox.warning(None, title, text, Ok)\<close>.\<close>

definition warning_box :: "string \<Rightarrow> string \<Rightarrow> sys \<Rightarrow> sys" where
  "warning_box title body s = s\<lparr>dialogs := dialogs s @ [(title, body)]\<rparr>"

text \<open>\<^verbatim>\<open>type(err).__name__\<close>.\<close>

fun exn_name :: "pyexn \<Rightarrow> string" where
  "exn_name (ValueError x) = ''ValueError''"
| "exn_name (UnboundLocalError x) = ''UnboundLocalError''"
| "exn_name (FileNotFoundError x) = ''FileNotFoundError''"
| "exn_name (FileExistsError x) = ''FileExistsError''"
| "exn_name (NotADirectoryError x) = ''NotADirectoryError''"
| "exn_name (IsADirectoryError x) = ''IsADirectoryError''"
| "exn_name (BadZipFile x) = ''BadZipFile''"
| "exn_name (SameFileError x) = ''SameFileError''"
| "exn_name (KeyError x) = ''KeyError''"
| "exn_name ParseError = ''ParseError''"
| "exn_name TypeError = ''TypeError''"
| "exn_name RecursionError = ''RecursionError''"

text \<open>
  The body of the first inner loop for one \<^verbatim>\<open>remove\<close> element; the value is
  \<^verbatim>\<open>list_of_errors\<close>.
\<close>

definition remove_entry :: "env \<Rightarrow> element \<Rightarrow> string \<Rightarrow> sys \<Rightarrow> string res" where
  "remove_entry e element list_of_errors s =
     (case path_get e ''main'' [Some destination, el_text element] of
        Inl err \<Rightarrow> Raise err s
      | Inr path_to_remove \<Rightarrow>
          (case valid_path e path_to_remove False of
             Inl err \<Rightarrow> Raise err s
           | Inr ok \<Rightarrow>
               if ok then
                 (if isdir s path_to_remove then Ok list_of_errors (rmtree path_to_remove s)
                  else if isfile s path_to_remove then
                    (case os_remove path_to_remove s of
                       Raise err s' \<Rightarrow> Raise err s'
                     | Ok u s' \<Rightarrow> Ok list_of_errors s')
                  else Ok list_of_errors s)
               else
                 Ok (list_of_errors @ ''- removing: '' @ fmt (el_text element) @ [CHR 0x0A]) s))"

fun remove_loop :: "env \<Rightarrow> element list \<Rightarrow> string \<Rightarrow> sys \<Rightarrow> string res" where
  "remove_loop e [] list_of_errors s = Ok list_of_errors s"
| "remove_loop e (element # rest) list_of_errors s =
     (if el_tag element = ''remove'' then
        (case remove_entry e element list_of_errors s of
           Raise err s' \<Rightarrow> Raise err s'
         | Ok errs s' \<Rightarrow> remove_loop e rest errs s')
      else remove_loop e rest list_of_errors s)"

text \<open>The body of the second inner loop for one \<^verbatim>\<open>copy\<close> element.\<close>

definition copy_entry :: "env \<Rightarrow> element \<Rightarrow> string \<Rightarrow> sys \<Rightarrow> string res" where
  "copy_entry e element list_of_errors s =
     (case path_get e ''temp'' [el_text element] of
        Inl err \<Rightarrow> Raise err s
      | Inr src \<Rightarrow>
          (case path_get e ''main'' [Some destination, el_text element] of
             Inl err \<Rightarrow> Raise err s
           | Inr dest \<Rightarrow>
               if \<not> exists s src then
                 Ok (list_of_errors @ ''- copying: '' @ fmt (el_text element) @ [CHR 0x0A]) s
               else
                 (case recursive_overwrite (recursion_limit e) src dest None s of
                    Raise err s' \<Rightarrow> Raise err s'
                  | Ok u s' \<Rightarrow> Ok list_of_errors s')))"

fun copy_loop :: "env \<Rightarrow> element list \<Rightarrow> string \<Rightarrow> sys \<Rightarrow> string res" where
  "copy_loop e [] list_of_errors s = Ok list_of_errors s"
| "copy_loop e (element # rest) list_of_errors s =
     (if el_tag element = ''copy'' then
        (case copy_entry e element list_of_errors s of
           Raise err s' \<Rightarrow> Raise err s'
         | Ok errs s' \<Rightarrow> copy_loop e rest errs s')
      else copy_loop e rest list_of_errors s)"

text \<open>One child of the root: an \<^verbatim>\<open>update\<close> element runs the two loops, one after the other.\<close>

definition update_child :: "env \<Rightarrow> element \<Rightarrow> string \<Rightarrow> sys \<Rightarrow> string res" where
  "update_child e child list_of_errors s =
     (if el_tag child = ''update'' then
        (case remove_loop e (el_children child) list_of_errors s of
           Raise err s' \<Rightarrow> Raise err s'
         | Ok errs s' \<Rightarrow> copy_loop e (el_children child) errs s')
      else Ok list_of_errors s)"

fun root_loop :: "env \<Rightarrow> element list \<Rightarrow> string \<Rightarrow> sys \<Rightarrow> string res" where
  "root_loop e [] list_of_errors s = Ok list_of_errors s"
| "root_loop e (child # rest) list_of_errors s =
     (case update_child e child list_of_errors s of
        Raise err s' \<Rightarrow> Raise err s'
      | Ok errs s' \<Rightarrow> root_loop e rest errs s')"

text \<open>\<^verbatim>\<open>os.path.samefile\<close>: both paths must exist; without links a file is one path.\<close>

definition samefile :: "sys \<Rightarrow> string \<Rightarrow> string \<Rightarrow> pyexn + bool" where
  "samefile s a b =
     (if \<not> exists s a then Inl (FileNotFoundError a)
      else if \<not> exists s b then Inl (FileNotFoundError b)
      else Inr (a = b))"

text \<open>The statements after the \<^verbatim>\<open>with\<close> block, up to \<^verbatim>\<open>return True\<close>.\<close>

definition report_or_archive :: "env \<Rightarrow> string \<Rightarrow> string \<Rightarrow> sys \<Rightarrow> bool res" where
  "report_or_archive e zip_file_path list_of_errors s =
     (if list_of_errors \<noteq> '''' then
        Ok True (warning_box (gettext e ''Error'')
                   (gettext e (''List of installation errors:'' @ [CHR 0x0A]) @ list_of_errors) s)
      else
        (case path_get e ''zip archive file'' [] of
           Inl err \<Rightarrow> Raise err s
         | Inr archive_file_path \<Rightarrow>
             if \<not> exists s archive_file_path then
               (case copy2 zip_file_path archive_file_path s of
                  Raise err s' \<Rightarrow> Raise err s'
                | Ok u s' \<Rightarrow> Ok True s')
             else
               (case samefile s zip_file_path archive_file_path of
                  Inl err \<Rightarrow> Raise err s
                | Inr same \<Rightarrow>
                    if \<not> same then
                      (case copy2 zip_file_path archive_file_path s of
                         Raise err s' \<Rightarrow> Raise err s'
                       | Ok u s' \<Rightarrow> Ok True s')
                    else Ok True s)))"

text \<open>The \<^verbatim>\<open>try\<close> block.\<close>

definition try_block :: "env \<Rightarrow> string \<Rightarrow> string \<Rightarrow> sys \<Rightarrow> bool res" where
  "try_block e zip_file_path temp_path s =
     (case open_zip s zip_file_path of
        Inl err \<Rightarrow> Raise err s
      | Inr members \<Rightarrow>
          (case extractall temp_path members s of
             Raise err s' \<Rightarrow> Raise err s'
           | Ok u s' \<Rightarrow>
               (case zip_member members CONFIG_FILENAME of
                  None \<Rightarrow> Raise (KeyError CONFIG_FILENAME) s'
                | Some config \<Rightarrow>
                    (case xml_parse config of
                       Inl err \<Rightarrow> Raise err s'
                     | Inr root \<Rightarrow>
                         (case root_loop e (el_children root) '''' s' of
                            Raise err s'' \<Rightarrow> Raise err s''
                          | Ok list_of_errors s'' \<Rightarrow>
                              report_or_archive e zip_file_path list_of_errors s'')))))"

text \<open>The \<^verbatim>\<open>try\<close> block with its handler \<^verbatim>\<open>except Exception as err\<close>.\<close>

definition try_except :: "env \<Rightarrow> string \<Rightarrow> string \<Rightarrow> sys \<Rightarrow> bool res" where
  "try_except e zip_file_path temp_path s =
     (case try_block e zip_file_path temp_path s of
        Ok r s' \<Rightarrow> Ok r s'
      | Raise err s' \<Rightarrow>
          Ok False
            (warning_box (gettext e ''Info'')
               (gettext e ''Cannot install from this zip file'' @ '':'' @ [CHR 0x0A]
                  @ exn_name err @ '': '' @ [CHR 0x22] @ exn_str e err @ [CHR 0x22]) s'))"

text \<open>
  The \<^verbatim>\<open>finally\<close> block, run on what the \<^verbatim>\<open>try\<close> statement gave: an exception raised in
  it replaces that result, and the statements after it are not run.
\<close>

definition finally_block :: "env \<Rightarrow> string \<Rightarrow> string \<Rightarrow> sys \<Rightarrow> unit res" where
  "finally_block e zip_file_path temp_path s =
     (case path_get e ''zip install default file'' [] of
        Inl err \<Rightarrow> Raise err s
      | Inr default_file \<Rightarrow>
          (case (if zip_file_path = default_file then os_remove zip_file_path s else Ok () s) of
             Raise err s' \<Rightarrow> Raise err s'
           | Ok u s' \<Rightarrow> Ok () (rmtree temp_path s')))"

text \<open>
  \<^verbatim>\<open>update_data_from_zip(source)\<close>. The value is \<open>Some True\<close> or \<open>Some False\<close> for the two
  \<^verbatim>\<open>return\<close> statements of the \<^verbatim>\<open>try\<close> statement and \<open>None\<close> for the bare \<^verbatim>\<open>return\<close>
  after the check of the content.
\<close>

definition update_data_from_zip :: "env \<Rightarrow> string \<Rightarrow> sys \<Rightarrow> bool option res" where
  "update_data_from_zip e source s =
     (case path_get e ''main'' [Some destination] of
        Inl err \<Rightarrow> Raise err s
      | Inr destinantion_path \<Rightarrow>
     (case (if source = '''' then path_get e ''zip install default file'' []
            else Inr (path_clean e source)) of
        Inl err \<Rightarrow> Raise err s
      | Inr zip_file_path \<Rightarrow>
     (case path_get e ''temp'' [] of
        Inl err \<Rightarrow> Raise err s
      | Inr temp_path \<Rightarrow>
          (let s1 = rmtree temp_path s
           in case zip_check_content e s1 zip_file_path of
                Inl err \<Rightarrow> Raise err s1
              | Inr ok \<Rightarrow>
                  if \<not> ok then
                    Ok None (warning_box (gettext e ''Info'')
                               (gettext e ''Invalid data in zip file'') s1)
                  else
                    (case (if \<not> exists s1 destinantion_path
                           then makedirs destinantion_path s1 else Ok () s1) of
                       Raise err s2 \<Rightarrow> Raise err s2
                     | Ok u s2 \<Rightarrow>
                         (case try_except e zip_file_path temp_path s2 of
                            Ok r s3 \<Rightarrow>
                              (case finally_block e zip_file_path temp_path s3 of
                                 Raise err s4 \<Rightarrow> Raise err s4
                               | Ok u s4 \<Rightarrow> Ok (Some r) s4)
                          | Raise err s3 \<Rightarrow>
                              (case finally_block e zip_file_path temp_path s3 of
                                 Raise err' s4 \<Rightarrow> Raise err' s4
                               | Ok u s4 \<Rightarrow> Raise err s4)))))))"

text \<open>
  Modelled on the words of the specification, to state what the code is compared with: the
  sanitising of a whole parameter as a single segment, every white space inside replaced by
  an underscore.
\<close>

definition spec_sanitize :: "env \<Rightarrow> string \<Rightarrow> string" where
  "spec_sanitize e p =
     filter (keep_char e) (map (\<lambda>c. if is_space e c then CHR ''_'' else c) (py_strip e p))"

text \<open>The language that the specification's \<open>pickLocalized\<close> chooses among the matching elements.\<close>

definition first_lang :: "element list \<Rightarrow> string option" where
  "first_lang els = (case filter (\<lambda>l. l \<noteq> None) (map el_lang els) of [] \<Rightarrow> None | l # ls \<Rightarrow> l)"

definition chosen_lang :: "element list \<Rightarrow> string option \<Rightarrow> string \<Rightarrow> string option" where
  "chosen_lang matching lang default_lang =
     (if lang \<in> set (map el_lang matching) then lang
      else if Some default_lang \<in> set (map el_lang matching) then Some default_lang
      else first_lang matching)"

section \<open>An installation with an archive in the inbox\<close>

definition example_files :: "blob \<Rightarrow> (string \<times> node) list" where
  "example_files b =
     [(''/'', Dir), (''/h'', Dir), (''/h/mu_code'', Dir),
      (''/h/mu_code/codeinpython_env'', Dir),
      (''/h/mu_code/codeinpython_env/codeinpython_update.zip'', File b)]"

definition example_sys :: "blob \<Rightarrow> sys" where
  "example_sys b = \<lparr>files = example_files b, oplog = [], dialogs = []\<rparr>"

definition manifest :: "element list \<Rightarrow> blob" where
  "manifest entries =
     Xml (Element ''config'' None None
            [Element ''release'' None (Some ''1.0'') [],
             Element ''update'' None None entries])"

text \<open>The state in which a call ended, and the exception it raised, if any.\<close>

fun state_of :: "'a res \<Rightarrow> sys" where
  "state_of (Ok v s) = s"
| "state_of (Raise err s) = s"

fun raised :: "'a res \<Rightarrow> pyexn option" where
  "raised (Ok v s) = None"
| "raised (Raise err s) = Some err"

text \<open>
  The elements of \<open>child\<close> with the tag \<open>name\<close>, and among them those in the chosen
  language, both in document order.
\<close>

definition matching_elements :: "element \<Rightarrow> string \<Rightarrow> element list" where
  "matching_elements child name = filter (\<lambda>el. el_tag el = name) (el_children child)"

definition chosen_elements :: "element \<Rightarrow> string \<Rightarrow> string option \<Rightarrow> string \<Rightarrow> element list" where
  "chosen_elements child name lang default_lang =
     filter (\<lambda>el. el_lang el = chosen_lang (matching_elements child name) lang default_lang)
       (matching_elements child name)"

text \<open>
  The changes to the file system are of two kinds: \<^verbatim>\<open>rmtree\<close> and \<^verbatim>\<open>os.remove\<close> take
  entries away, \<^verbatim>\<open>mkdir\<close> and the writing of a file add or overwrite them. \<open>appends K s s'\<close>
  says that \<open>s'\<close> comes from \<open>s\<close> by changes of the kind \<open>K\<close> only.
\<close>

fun destructive :: "fsop \<Rightarrow> bool" where
  "destructive (Op_rmtree p) = True"
| "destructive (Op_remove p) = True"
| "destructive (Op_mkdir p) = False"
| "destructive (Op_write p) = False"

fun additive :: "fsop \<Rightarrow> bool" where
  "additive (Op_rmtree p) = False"
| "additive (Op_remove p) = False"
| "additive (Op_mkdir p) = True"
| "additive (Op_write p) = True"

definition appends :: "(fsop \<Rightarrow> bool) \<Rightarrow> sys \<Rightarrow> sys \<Rightarrow> bool" where
  "appends K s s' = (\<exists>ops. oplog s' = oplog s @ ops \<and> list_all K ops)"

text \<open>
  A state in the middle of an installation, after the archive was extracted: the scratch
  directory holds \<^verbatim>\<open>new.py\<close>, the root holds \<^verbatim>\<open>old\<close>.
\<close>

definition extracted_sys :: sys where
  "extracted_sys =
     \<lparr>files =
        [(''/'', Dir), (''/h'', Dir), (''/h/mu_code'', Dir),
         (''/h/mu_code/codeinpython_env'', Dir),
         (''/h/mu_code/codeinpython_env/old'', File (Bytes ''old'')),
         (''/h/mu_code/codeinpython_env/temp'', Dir),
         (''/h/mu_code/codeinpython_env/temp/new.py'', File (Bytes ''new''))],
      oplog = [], dialogs = []\<rparr>"

definition example_update :: element where
  "example_update =
     Element ''update'' None None
       [Element ''copy'' None (Some ''new.py'') [],
        Element ''remove'' None (Some ''..'') [],
        Element ''copy'' None (Some ''missing'') [],
        Element ''remove'' None (Some ''old'') []]"

definition example_members :: "(string \<times> blob) list" where
  "example_members =
     [(CONFIG_FILENAME,
       Xml (Element ''config'' None None
              [Element ''release'' None (Some ''1.0'') [], example_update])),
      (''new.py'', Bytes ''new'')]"





section \<open>Sanitised parameters and the places\<close>

lemma subpaths:
  "SUBPATH_MAIN = ''codeinpython_env''" "SUBPATH_WORKSPACE = ''workspace''"
  "SUBPATH_ARCHIVE = ''archive''" "SUBPATH_EXAMPLES = ''examples''"
  "SUBPATH_CUSTOM_EXAMPLES = ''custom_examples''" "SUBPATH_PRIVATE_EXAMPLES = ''private''"
  "SUBPATH_TEMP = ''temp''" "SUBPATH_LIBRARIES = ''code_lib''"
  "SUBPATH_MU_MODULE = ''mu_modules''" "SUBPATH_FIRMWARE = ''firmware''"
  by code_simp+

lemma keep_char_not_space: "\<not> keep_char e (CHR '' '')"
  by (simp add: keep_char_def is_word_def is_ascii_def)

lemma keep_char_underscore: "keep_char e (CHR ''_'')"
  by (simp add: keep_char_def is_word_def is_ascii_def)

lemma sanitize_chars: "c \<in> set (sanitize e s) \<Longrightarrow> keep_char e c"
  by (simp add: sanitize_def)

lemma sanitize_no_space: "CHR '' '' \<notin> set (sanitize e s)"
  using sanitize_chars keep_char_not_space by blast

lemma marker_not_param: "''append py file'' \<notin> set (path_params e ps)"
proof
  assume "''append py file'' \<in> set (path_params e ps)"
  then obtain s where "sanitize e s = ''append py file''"
    by (auto simp: path_params_def)
  then have "CHR '' '' \<in> set (sanitize e s)" by simp
  then show False using sanitize_no_space by blast
qed

lemma foldl_assemble_plain:
  "''append py file'' \<notin> set xs \<Longrightarrow> foldl assemble_step p xs = foldl os_join p xs"
  by (induction xs arbitrary: p) (auto simp: assemble_step_def)

lemma struct_marker:
  assumes "map_of (path_struct e P) place = Some els"
    and "''append py file'' \<notin> set P"
    and "default_workspace e \<noteq> ''append py file''"
    and "subpath_class e \<noteq> ''append py file''"
    and "user_name e \<noteq> ''append py file''"
  shows "(''append py file'' \<in> set els
            \<longleftrightarrow> place = ''student file'' \<or> place = ''student private file'')
          \<and> ''append py file'' \<notin> set (butlast els)"
  using assms unfolding path_struct_def
  apply (simp only: map_of.simps fst_conv snd_conv fun_upd_apply split: if_splits)
  apply (simp_all add: subpaths ZIP_FILENAME_def butlast_append)
  apply (auto split: if_splits dest: in_set_butlastD)
  done

text \<open>
  C10: no parameter can trigger the ``append py file'' entry. A sanitised segment holds no
  space, so none equals the entry; over the segments the assembling loop only joins; and
  when the settings themselves are not that text, the entry occurs in the template of a
  place exactly for ``student file'' and ``student private file'', as the last entry only.
\<close>

theorem append_py_only_from_template:
  "APPEND_PY \<notin> set (path_params e parameters)
   \<and> foldl assemble_step path (path_params e parameters)
       = foldl os_join path (path_params e parameters)
   \<and> (default_workspace e \<noteq> APPEND_PY \<and> subpath_class e \<noteq> APPEND_PY
        \<and> user_name e \<noteq> APPEND_PY
        \<and> map_of (path_struct e (path_params e parameters)) place = Some els
      \<longrightarrow> (APPEND_PY \<in> set els
             \<longleftrightarrow> place = ''student file'' \<or> place = ''student private file'')
          \<and> APPEND_PY \<notin> set (butlast els))"
proof -
  have m: "''append py file'' \<notin> set (path_params e parameters)"
    by (rule marker_not_param)
  have f: "foldl assemble_step path (path_params e parameters)
       = foldl os_join path (path_params e parameters)"
    using m by (rule foldl_assemble_plain)
  show ?thesis
    unfolding APPEND_PY_def using m f struct_marker[OF _ m] by blast
qed

theorem append_py_only_from_template_witness:
  "default_workspace example_env \<noteq> APPEND_PY \<and> subpath_class example_env \<noteq> APPEND_PY
   \<and> user_name example_env \<noteq> APPEND_PY
   \<and> path_params example_env [Some ''append py file''] = [''append_py_file'']
   \<and> map_of (path_struct example_env (path_params example_env [Some ''append py file'']))
        ''student file''
      = Some [''/h/mu_code'', ''codeinpython_env'', ''workspace'', ''my_school'', '''',
              ''append_py_file'', ''append py file'']
   \<and> APPEND_PY \<in> set [''/h/mu_code'', ''codeinpython_env'', ''workspace'', ''my_school'', '''',
              ''append_py_file'', ''append py file'']
   \<and> APPEND_PY \<notin> set (butlast [''/h/mu_code'', ''codeinpython_env'', ''workspace'',
              ''my_school'', '''', ''append_py_file'', ''append py file''])"
proof -
  have h: "default_workspace example_env \<noteq> APPEND_PY \<and> subpath_class example_env \<noteq> APPEND_PY
   \<and> user_name example_env \<noteq> APPEND_PY
   \<and> path_params example_env [Some ''append py file''] = [''append_py_file'']
   \<and> map_of (path_struct example_env (path_params example_env [Some ''append py file'']))
        ''student file''
      = Some [''/h/mu_code'', ''codeinpython_env'', ''workspace'', ''my_school'', '''',
              ''append_py_file'', ''append py file'']"
    by code_simp
  show ?thesis
    using h append_py_only_from_template[of example_env "[Some ''append py file'']" "''''"
        "''student file''"
        "[''/h/mu_code'', ''codeinpython_env'', ''workspace'', ''my_school'', '''',
              ''append_py_file'', ''append py file'']"]
    by blast
qed

section \<open>Containment\<close>

text \<open>
  C1: \<^verbatim>\<open>valid_path\<close> compares strings with \<^verbatim>\<open>startswith\<close>, so it accepts a path in a sibling
  directory whose name begins with the name of the root. With the root
  \<^verbatim>\<open>/h/mu_code/codeinpython_env\<close>, the \<^verbatim>\<open>remove\<close> entry \<^verbatim>\<open>../codeinpython_env2/x\<close> resolves to
  \<^verbatim>\<open>/h/mu_code/codeinpython_env2/x\<close>; \<^verbatim>\<open>valid_path\<close> accepts it with and without
  \<^verbatim>\<open>allow_main\<close>, although neither the path nor its parent lies inside the root, and the
  loop of \<^verbatim>\<open>update_data_from_zip\<close> removes the file.
\<close>

theorem valid_path_accepts_sibling_directory:
  "path_create example_env ''main'' [] = Inr ''/h/mu_code/codeinpython_env''
   \<and> path_get example_env ''main'' [Some destination, Some ''../codeinpython_env2/x'']
       = Inr ''/h/mu_code/codeinpython_env2/x''
   \<and> valid_path example_env ''/h/mu_code/codeinpython_env2/x'' True = Inr True
   \<and> valid_path example_env ''/h/mu_code/codeinpython_env2/x'' False = Inr True
   \<and> \<not> path_inside ''/h/mu_code/codeinpython_env''
         (path_clean example_env ''/h/mu_code/codeinpython_env2/x'')
   \<and> \<not> path_inside ''/h/mu_code/codeinpython_env''
         (fst (os_split (path_clean example_env ''/h/mu_code/codeinpython_env2/x'')))
   \<and> remove_entry example_env (Element ''remove'' None (Some ''../codeinpython_env2/x'') []) ''''
         \<lparr>files = [(''/h/mu_code/codeinpython_env2/x'', File (Bytes ''''))],
          oplog = [], dialogs = []\<rparr>
       = Ok '''' \<lparr>files = [], oplog = [Op_remove ''/h/mu_code/codeinpython_env2/x''],
                  dialogs = []\<rparr>"
  by code_simp

text \<open>
  C2: the parameter \<^verbatim>\<open>../codeinpython_env2/x\<close> holds \<^verbatim>\<open>..\<close> and a separator. For the place
  ``main'' \<^verbatim>\<open>__path_create\<close> resolves it to \<^verbatim>\<open>/h/mu_code/codeinpython_env2/x\<close>, outside
  the root \<^verbatim>\<open>/h/mu_code/codeinpython_env\<close>, and \<^verbatim>\<open>valid_path\<close>, which compares the strings
  with \<^verbatim>\<open>startswith\<close>, does not reject it: \<^verbatim>\<open>path_get\<close> returns the path.
\<close>

theorem path_get_accepts_escaping_parameter:
  "prefix ''..'' ''../codeinpython_env2/x''
   \<and> CHR ''/'' \<in> set ''../codeinpython_env2/x''
   \<and> path_create example_env ''main'' [] = Inr ''/h/mu_code/codeinpython_env''
   \<and> path_create example_env ''main'' [Some ''../codeinpython_env2/x'']
       = Inr ''/h/mu_code/codeinpython_env2/x''
   \<and> valid_path example_env ''/h/mu_code/codeinpython_env2/x'' True = Inr True
   \<and> path_get example_env ''main'' [Some ''../codeinpython_env2/x'']
       = Inr ''/h/mu_code/codeinpython_env2/x''
   \<and> \<not> path_inside ''/h/mu_code/codeinpython_env''
         (path_clean example_env ''/h/mu_code/codeinpython_env2/x'')"
  by code_simp

section \<open>What __path_create does with a parameter\<close>

lemma params_separate_concat:
  "params_separate ps
     = concat (map (\<lambda>x. case x of None \<Rightarrow> [] | Some p \<Rightarrow> py_split sep (normpath p)) ps)"
  by (induction ps rule: params_separate.induct) simp_all

lemma sanitize_as_filter:
  "sanitize e s = replace_space (filter (\<lambda>c. c = CHR '' '' \<or> keep_char e c) (py_strip e s))"
proof -
  have "filter (keep_char e) (replace_space xs)
        = replace_space (filter (\<lambda>c. c = CHR '' '' \<or> keep_char e c) xs)" for xs
    by (induction xs) (auto simp: replace_space_def keep_char_underscore keep_char_not_space)
  then show ?thesis by (simp add: sanitize_def)
qed

lemma struct_suffix:
  assumes "map_of (path_struct e P) place = Some els"
  shows "place = ''zip install default file'' \<or> place = ''zip archive file''
         \<or> (if place = ''student file'' \<or> place = ''student private file''
             then suffix (P @ [''append py file'']) els else suffix P els)"
  using assms unfolding path_struct_def
  apply (simp only: map_of.simps fst_conv snd_conv fun_upd_apply split: if_splits)
  apply (auto simp: suffix_Cons)
  done

text \<open>
  C3, as stated, fails: a parameter is not sanitised as a single segment, and white space
  inside it other than the space character is removed, not replaced. The parameter
  \<^verbatim>\<open>a/ b\<close> gives the two segments \<^verbatim>\<open>a\<close> and \<^verbatim>\<open>b\<close>, where the single segment of the text
  is \<^verbatim>\<open>a_b\<close>; and \<^verbatim>\<open>a\<close>, tabulator, \<^verbatim>\<open>b\<close> gives \<^verbatim>\<open>ab\<close>, not \<^verbatim>\<open>a_b\<close>.
\<close>

theorem path_params_not_single_segment:
  "path_params example_env [Some ''a/ b''] = [''a'', ''b'']
   \<and> [spec_sanitize example_env ''a/ b''] = [''a_b'']
   \<and> path_params example_env [Some [CHR ''a'', CHR 0x09, CHR ''b'']] = [''ab'']
   \<and> [spec_sanitize example_env [CHR ''a'', CHR 0x09, CHR ''b'']] = [''a_b'']"
  by code_simp

text \<open>
  C3, amended: \<^verbatim>\<open>__path_create\<close> skips a parameter that is \<^verbatim>\<open>None\<close>, normalises every other
  one and cuts it at the separators into segments. Each segment is stripped of the white
  space at its ends; of what is left, the characters that are a space or in the class
  \<^verbatim>\<open>[-\w.]\<close> are kept in order, each space as an underscore, and every other character
  (a tabulator inside, a separator) is removed. For a known place the path is its template
  joined entry by entry and cleaned; unless the place is ``zip install default file'' or
  ``zip archive file'', which take no parameter, the template ends with the sanitised
  segments in order, followed by the ``append py file'' entry for the two file places. An
  unknown place raises \<^verbatim>\<open>ValueError\<close>.
\<close>

theorem path_create_sanitises_segments:
  "path_params e parameters
     = map (sanitize e)
         (concat (map (\<lambda>x. case x of None \<Rightarrow> [] | Some p \<Rightarrow> py_split sep (normpath p))
                    parameters))
   \<and> sanitize e s
       = map (\<lambda>c. if c = CHR '' '' then CHR ''_'' else c)
           (filter (\<lambda>c. c = CHR '' '' \<or> c = CHR ''-'' \<or> is_word e c \<or> c = CHR ''.'')
              (py_strip e s))
   \<and> (map_of (path_struct e (path_params e parameters)) place = Some els
        \<longrightarrow> path_create e place parameters = Inr (path_clean e (foldl assemble_step '''' els))
            \<and> (place = ''zip install default file'' \<or> place = ''zip archive file''
                \<or> (if place = ''student file'' \<or> place = ''student private file''
                    then suffix (path_params e parameters @ [APPEND_PY]) els
                    else suffix (path_params e parameters) els)))
   \<and> (map_of (path_struct e (path_params e parameters)) place = None
        \<longrightarrow> path_create e place parameters = Inl (ValueError place))"
proof -
  have a: "path_params e parameters
     = map (sanitize e)
         (concat (map (\<lambda>x. case x of None \<Rightarrow> [] | Some p \<Rightarrow> py_split sep (normpath p))
                    parameters))"
    by (simp only: path_params_def params_separate_concat)
  have b: "sanitize e s
       = map (\<lambda>c. if c = CHR '' '' then CHR ''_'' else c)
           (filter (\<lambda>c. c = CHR '' '' \<or> c = CHR ''-'' \<or> is_word e c \<or> c = CHR ''.'')
              (py_strip e s))"
    using sanitize_as_filter[of e s] by (simp add: replace_space_def keep_char_def)
  have c: "map_of (path_struct e (path_params e parameters)) place = Some els
        \<longrightarrow> path_create e place parameters = Inr (path_clean e (foldl assemble_step '''' els))
            \<and> (place = ''zip install default file'' \<or> place = ''zip archive file''
                \<or> (if place = ''student file'' \<or> place = ''student private file''
                    then suffix (path_params e parameters @ [APPEND_PY]) els
                    else suffix (path_params e parameters) els))"
  proof (intro impI)
    assume m: "map_of (path_struct e (path_params e parameters)) place = Some els"
    have pc: "path_create e place parameters
                = Inr (path_clean e (foldl assemble_step '''' els))"
      by (simp add: path_create_def m)
    have sf: "place = ''zip install default file'' \<or> place = ''zip archive file''
                \<or> (if place = ''student file'' \<or> place = ''student private file''
                    then suffix (path_params e parameters @ [APPEND_PY]) els
                    else suffix (path_params e parameters) els)"
      using struct_suffix[OF m] by (simp only: APPEND_PY_def)
    show "path_create e place parameters = Inr (path_clean e (foldl assemble_step '''' els))
            \<and> (place = ''zip install default file'' \<or> place = ''zip archive file''
                \<or> (if place = ''student file'' \<or> place = ''student private file''
                    then suffix (path_params e parameters @ [APPEND_PY]) els
                    else suffix (path_params e parameters) els))"
      using pc sf by blast
  qed
  have d: "map_of (path_struct e (path_params e parameters)) place = None
        \<longrightarrow> path_create e place parameters = Inl (ValueError place)"
    by (simp add: path_create_def)
  show ?thesis using a b c d by blast
qed

theorem path_create_sanitises_segments_witness:
  "map_of (path_struct example_env (path_params example_env [None, Some ''a/ b c '']))
       ''student file''
     = Some [''/h/mu_code'', ''codeinpython_env'', ''workspace'', ''my_school'', '''',
             ''a'', ''b_c'', ''append py file'']
   \<and> path_create example_env ''student file'' [None, Some ''a/ b c '']
       = Inr ''/h/mu_code/codeinpython_env/workspace/my_school/a/b_c/b_c.py''
   \<and> suffix (path_params example_env [None, Some ''a/ b c ''] @ [APPEND_PY])
        [''/h/mu_code'', ''codeinpython_env'', ''workspace'', ''my_school'', '''',
         ''a'', ''b_c'', ''append py file'']
   \<and> map_of (path_struct example_env (path_params example_env [])) ''nowhere'' = None
   \<and> path_create example_env ''nowhere'' [] = Inl (ValueError ''nowhere'')"
proof -
  have h1: "map_of (path_struct example_env (path_params example_env [None, Some ''a/ b c '']))
       ''student file''
     = Some [''/h/mu_code'', ''codeinpython_env'', ''workspace'', ''my_school'', '''',
             ''a'', ''b_c'', ''append py file'']"
    by code_simp
  have h2: "map_of (path_struct example_env (path_params example_env [])) ''nowhere'' = None"
    by code_simp
  have h3: "path_clean example_env (foldl assemble_step ''''
       [''/h/mu_code'', ''codeinpython_env'', ''workspace'', ''my_school'', '''',
             ''a'', ''b_c'', ''append py file''])
      = ''/h/mu_code/codeinpython_env/workspace/my_school/a/b_c/b_c.py''"
    by code_simp
  note t1 = path_create_sanitises_segments[of example_env "[None, Some ''a/ b c '']" "''''"
        "''student file''"
        "[''/h/mu_code'', ''codeinpython_env'', ''workspace'', ''my_school'', '''',
             ''a'', ''b_c'', ''append py file'']", THEN conjunct2, THEN conjunct2]
  note t2 = path_create_sanitises_segments[of example_env "[]" "''''" "''nowhere''" "[]",
        THEN conjunct2, THEN conjunct2]
  show ?thesis
    using h1 h2 h3 t1 t2 by simp
qed

section \<open>The localised lookup\<close>

lemma find_best_fit_chosen:
  "find_best_fit els name lang d acc
     = (if lang \<in> set (map el_lang (filter (\<lambda>el. el_tag el = name) els)) then lang
        else if Some d \<in> set (map el_lang (filter (\<lambda>el. el_tag el = name) els)) then Some d
        else if acc \<noteq> None then acc
        else first_lang (filter (\<lambda>el. el_tag el = name) els))"
proof (induction els arbitrary: acc)
  case Nil
  then show ?case by (simp add: first_lang_def)
next
  case (Cons el els)
  show ?case
  proof (cases "el_tag el = name")
    case False
    then show ?thesis using Cons.IH[of acc] by simp
  next
    case True
    then show ?thesis
      using Cons.IH[of "Some d"] Cons.IH[of "el_lang el"] Cons.IH[of acc]
      by (cases "el_lang el") (auto simp: first_lang_def Let_def)
  qed
qed

lemma py_join_Cons: "py_join j (t # ts) = t @ concat (map (\<lambda>x. j @ x) ts)"
  by (induction ts arbitrary: t) simp_all

lemma collect_lang_join:
  assumes "\<forall>el \<in> set els. el_tag el = name \<and> el_lang el = best \<longrightarrow> el_text el \<noteq> None"
  shows "collect_lang els name best j result
     = (case result of
          None \<Rightarrow>
            (if filter (\<lambda>el. el_tag el = name \<and> el_lang el = best) els = [] then None
             else Some (py_join j (map (\<lambda>el. fmt (el_text el))
                    (filter (\<lambda>el. el_tag el = name \<and> el_lang el = best) els))))
        | Some r \<Rightarrow>
            Some (r @ concat (map (\<lambda>x. j @ x) (map (\<lambda>el. fmt (el_text el))
                    (filter (\<lambda>el. el_tag el = name \<and> el_lang el = best) els)))))"
  using assms
proof (induction els arbitrary: result)
  case Nil
  then show ?case by (simp split: option.splits)
next
  case (Cons el els)
  then have ih: "\<And>result. collect_lang els name best j result
     = (case result of
          None \<Rightarrow>
            (if filter (\<lambda>el. el_tag el = name \<and> el_lang el = best) els = [] then None
             else Some (py_join j (map (\<lambda>el. fmt (el_text el))
                    (filter (\<lambda>el. el_tag el = name \<and> el_lang el = best) els))))
        | Some r \<Rightarrow>
            Some (r @ concat (map (\<lambda>x. j @ x) (map (\<lambda>el. fmt (el_text el))
                    (filter (\<lambda>el. el_tag el = name \<and> el_lang el = best) els)))))"
    by simp
  show ?case
  proof (cases "el_tag el = name \<and> el_lang el = best")
    case False
    then have f: "filter (\<lambda>el. el_tag el = name \<and> el_lang el = best) (el # els)
                    = filter (\<lambda>el. el_tag el = name \<and> el_lang el = best) els"
      by auto
    from False have "collect_lang (el # els) name best j result
                       = collect_lang els name best j result"
      by auto
    then show ?thesis by (simp only: f ih[of result])
  next
    case True
    with Cons.prems obtain t where t: "el_text el = Some t" by auto
    show ?thesis
    proof (cases result)
      case None
      then show ?thesis using True t ih[of "Some t"]
        by (simp add: py_join_Cons fmt_def)
    next
      case (Some r)
      then show ?thesis using True t ih[of "Some (r @ j @ t)"]
        by (simp add: fmt_def)
    qed
  qed
qed

lemma filter_matching_chosen:
  "filter (\<lambda>el. el_tag el = name \<and> el_lang el = best) els
     = filter (\<lambda>el. el_lang el = best) (filter (\<lambda>el. el_tag el = name) els)"
  by (induction els) auto

lemma first_lang_in:
  "first_lang els = Some l \<Longrightarrow> Some l \<in> set (map el_lang els)"
proof -
  assume a: "first_lang els = Some l"
  then obtain ls where "filter (\<lambda>l. l \<noteq> None) (map el_lang els) = Some l # ls"
    by (auto simp: first_lang_def split: list.splits)
  then have "Some l \<in> set (filter (\<lambda>l. l \<noteq> None) (map el_lang els))" by simp
  then show ?thesis by simp
qed

lemma first_lang_None:
  "first_lang els = None \<Longrightarrow> el \<in> set els \<Longrightarrow> el_lang el = None"
proof -
  assume a: "first_lang els = None" and b: "el \<in> set els"
  have "filter (\<lambda>l. l \<noteq> None) (map el_lang els) = []"
  proof (cases "filter (\<lambda>l. l \<noteq> None) (map el_lang els)")
    case Nil
    then show ?thesis .
  next
    case (Cons l ls)
    then have "l \<in> set (filter (\<lambda>l. l \<noteq> None) (map el_lang els))" by simp
    then have "l \<noteq> None" by simp
    moreover have "l = None" using a Cons by (simp add: first_lang_def)
    ultimately show ?thesis by blast
  qed
  then have "\<forall>l \<in> set (map el_lang els). l = None"
    by (simp add: filter_empty_conv)
  then show ?thesis using b by simp
qed

lemma chosen_nonempty:
  assumes "matching_elements child name \<noteq> []"
  shows "chosen_elements child name lang d \<noteq> []"
proof -
  let ?M = "matching_elements child name"
  let ?b = "chosen_lang ?M lang d"
  have "\<exists>el \<in> set ?M. el_lang el = ?b"
  proof (cases "lang \<in> set (map el_lang ?M)")
    case True
    then show ?thesis by (auto simp: chosen_lang_def)
  next
    case nl: False
    show ?thesis
    proof (cases "Some d \<in> set (map el_lang ?M)")
      case True
      then show ?thesis using nl by (auto simp: chosen_lang_def)
    next
      case nd: False
      then have b: "?b = first_lang ?M" using nl by (simp add: chosen_lang_def)
      show ?thesis
      proof (cases "first_lang ?M")
        case None
        from assms obtain el where el: "el \<in> set ?M" by (cases ?M) auto
        then have "el_lang el = None" using first_lang_None[OF None] by blast
        then show ?thesis using el b None by auto
      next
        case (Some l)
        then show ?thesis using first_lang_in[OF Some] b by auto
      qed
    qed
  qed
  then show ?thesis
    by (auto simp: chosen_elements_def filter_empty_conv)
qed

text \<open>
  Among the elements with the tag, \<^verbatim>\<open>xml_get_with_lang\<close> chooses the preferred language
  when one of them has it, else the default language when one of them has it, else the
  first language met, and there is a chosen element as soon as one element has the tag.
  When every chosen element has a text, the result is their texts in document order joined
  by the separator. With a title in \<^verbatim>\<open>en\<close> and then one in \<^verbatim>\<open>pl\<close>, the preferred language
  \<^verbatim>\<open>pl\<close> gives the second text and \<^verbatim>\<open>fr\<close> gives the first, whatever the two texts are.
\<close>

lemma xml_get_with_lang_with_texts:
  "((\<forall>el \<in> set (chosen_elements child name lang default_lang). el_text el \<noteq> None)
      \<longrightarrow> xml_get_with_lang child name lang default_lang separator
            = (if matching_elements child name = [] then None
               else Some (py_join separator
                      (map (\<lambda>el. fmt (el_text el))
                         (chosen_elements child name lang default_lang)))))
   \<and> (matching_elements child name \<noteq> [] \<longrightarrow> chosen_elements child name lang default_lang \<noteq> [])
   \<and> chosen_lang (matching_elements child name) lang default_lang
       = (if lang \<in> set (map el_lang (matching_elements child name)) then lang
          else if Some default_lang \<in> set (map el_lang (matching_elements child name))
          then Some default_lang
          else first_lang (matching_elements child name))
   \<and> xml_get_with_lang
         (Element root None None
            [Element ''title'' (Some ''en'') (Some hello) [],
             Element ''title'' (Some ''pl'') (Some czesc) []])
         ''title'' (Some ''pl'') ''en'' separator = Some czesc
   \<and> xml_get_with_lang
         (Element root None None
            [Element ''title'' (Some ''en'') (Some hello) [],
             Element ''title'' (Some ''pl'') (Some czesc) []])
         ''title'' (Some ''fr'') ''en'' separator = Some hello"
proof -
  have best: "find_best_fit (el_children child) name lang default_lang None
        = chosen_lang (matching_elements child name) lang default_lang"
    by (simp add: find_best_fit_chosen chosen_lang_def matching_elements_def)
  have a: "(\<forall>el \<in> set (chosen_elements child name lang default_lang). el_text el \<noteq> None)
      \<longrightarrow> xml_get_with_lang child name lang default_lang separator
            = (if matching_elements child name = [] then None
               else Some (py_join separator
                      (map (\<lambda>el. fmt (el_text el))
                         (chosen_elements child name lang default_lang))))"
  proof (intro impI)
    assume t: "\<forall>el \<in> set (chosen_elements child name lang default_lang). el_text el \<noteq> None"
    let ?b = "chosen_lang (matching_elements child name) lang default_lang"
    have t': "\<forall>el \<in> set (el_children child).
                 el_tag el = name \<and> el_lang el = ?b \<longrightarrow> el_text el \<noteq> None"
      using t by (auto simp: chosen_elements_def matching_elements_def)
    have c: "filter (\<lambda>el. el_tag el = name \<and> el_lang el = ?b) (el_children child)
               = chosen_elements child name lang default_lang"
      unfolding chosen_elements_def matching_elements_def by (rule filter_matching_chosen)
    have "xml_get_with_lang child name lang default_lang separator
            = (if chosen_elements child name lang default_lang = [] then None
               else Some (py_join separator
                      (map (\<lambda>el. fmt (el_text el))
                         (chosen_elements child name lang default_lang))))"
      unfolding xml_get_with_lang_def best
      using collect_lang_join[OF t', of separator None] by (simp only: c option.case)
    moreover have "chosen_elements child name lang default_lang = []
                     \<longleftrightarrow> matching_elements child name = []"
      using chosen_nonempty[of child name lang default_lang]
      by (auto simp: chosen_elements_def)
    ultimately show "xml_get_with_lang child name lang default_lang separator
            = (if matching_elements child name = [] then None
               else Some (py_join separator
                      (map (\<lambda>el. fmt (el_text el))
                         (chosen_elements child name lang default_lang))))"
      by simp
  qed
  have b: "matching_elements child name \<noteq> []
             \<longrightarrow> chosen_elements child name lang default_lang \<noteq> []"
    using chosen_nonempty by blast
  have c: "chosen_lang (matching_elements child name) lang default_lang
       = (if lang \<in> set (map el_lang (matching_elements child name)) then lang
          else if Some default_lang \<in> set (map el_lang (matching_elements child name))
          then Some default_lang
          else first_lang (matching_elements child name))"
    by (simp only: chosen_lang_def)
  have d: "xml_get_with_lang
         (Element root None None
            [Element ''title'' (Some ''en'') (Some hello) [],
             Element ''title'' (Some ''pl'') (Some czesc) []])
         ''title'' (Some ''pl'') ''en'' separator = Some czesc"
    by (simp add: xml_get_with_lang_def)
  have e: "xml_get_with_lang
         (Element root None None
            [Element ''title'' (Some ''en'') (Some hello) [],
             Element ''title'' (Some ''pl'') (Some czesc) []])
         ''title'' (Some ''fr'') ''en'' separator = Some hello"
    by (simp add: xml_get_with_lang_def)
  show ?thesis
    apply (intro conjI)
        apply (rule a)
       apply (rule b)
      apply (rule c)
     apply (rule d)
    apply (rule e)
    done
qed

text \<open>
  C5: the second loop of \<^verbatim>\<open>xml_get_with_lang\<close> misses the element without text, whose
  \<^verbatim>\<open>element.text\<close> is \<^verbatim>\<open>None\<close>. With a manifest that holds the description \<^verbatim>\<open>x\<close> in
  \<^verbatim>\<open>pl\<close> followed by an empty description in \<^verbatim>\<open>pl\<close>, the result for the preferred
  language \<^verbatim>\<open>pl\<close> and the separator \<^verbatim>\<open>-\<close> is \<^verbatim>\<open>x-None\<close>: the word \<^verbatim>\<open>None\<close> is the text of
  no element. In the other order the empty element is dropped and the result is \<^verbatim>\<open>x\<close>, and
  an empty description alone gives \<^verbatim>\<open>None\<close>, as if no element had matched.
  \<^verbatim>\<open>xml_get_version\<close> passes such a manifest on and reports the description \<^verbatim>\<open>x\<close>, line
  break, \<^verbatim>\<open>None\<close>.
\<close>

theorem xml_get_with_lang_prints_missing_text:
  "xml_get_with_lang
      (Element ''config'' None None
         [Element ''description'' (Some ''pl'') (Some ''x'') [],
          Element ''description'' (Some ''pl'') None []])
      ''description'' (Some ''pl'') ''en'' ''-'' = Some ''x-None''
   \<and> xml_get_with_lang
        (Element ''config'' None None
           [Element ''description'' (Some ''pl'') None [],
            Element ''description'' (Some ''pl'') (Some ''x'') []])
        ''description'' (Some ''pl'') ''en'' ''-'' = Some ''x''
   \<and> xml_get_with_lang
        (Element ''config'' None None [Element ''description'' (Some ''pl'') None []])
        ''description'' (Some ''pl'') ''en'' ''-'' = None
   \<and> xml_get_version example_env
        (Some (Xml (Element ''config'' None None
           [Element ''description'' (Some ''pl'') (Some ''x'') [],
            Element ''description'' (Some ''pl'') None []])))
       = Inr (True, \<lparr>release = Some ''----'', date = Some ''----'',
                     description = Some (''x'' @ [CHR 0x0A] @ ''None'')\<rparr>)"
  by code_simp

section \<open>The check of an archive\<close>

lemma xml_get_version_valid:
  "xml_get_version e source = Inr (valid, v) \<Longrightarrow> valid \<longleftrightarrow> (\<exists>root. source = Some (Xml root))"
  by (auto simp: xml_get_version_def xml_parse_def Let_def split: option.splits blob.splits)

lemma xml_get_version_Xml:
  "\<exists>v. xml_get_version e (Some (Xml root)) = Inr (True, v)"
  by (simp add: xml_get_version_def xml_parse_def Let_def)

lemma xml_get_version_raises:
  "xml_get_version e source = Inl err \<Longrightarrow> \<exists>b. source = Some b \<and> (\<forall>root. b \<noteq> Xml root)"
  by (auto simp: xml_get_version_def xml_parse_def Let_def split: option.splits blob.splits)

lemma zip_get_version_valid:
  "zip_get_version e s src = Inr (True, v)
     \<longleftrightarrow> (\<exists>members root. stat s src = Some (File (Archive members))
            \<and> splitext_ext src = ''.zip''
            \<and> CONFIG_FILENAME \<in> set (map fst members)
            \<and> zip_member members CONFIG_FILENAME = Some (Xml root)
            \<and> xml_get_version e (Some (Xml root)) = Inr (True, v))"
  unfolding zip_get_version_def open_zip_def isfile_def
  by (auto split: option.splits node.splits blob.splits sum.splits if_splits
           dest: xml_get_version_valid)

text \<open>
  C4, as stated, fails. An archive \<^verbatim>\<open>codeinpython_update.zip\<close> whose manifest has no
  \<^verbatim>\<open>release\<close> element passes \<^verbatim>\<open>zip_check_content\<close> (the version read from it keeps the
  placeholder), and an archive with a complete manifest does not pass when its name is
  \<^verbatim>\<open>update.dat\<close>.
\<close>

theorem zip_check_content_ignores_release:
  "zip_check_content example_env
      (example_sys (Archive [(CONFIG_FILENAME, Xml (Element ''config'' None None []))])) ''''
     = Inr True
   \<and> zip_get_version example_env
        (example_sys (Archive [(CONFIG_FILENAME, Xml (Element ''config'' None None []))]))
        ''/h/mu_code/codeinpython_env/codeinpython_update.zip''
     = Inr (True, \<lparr>release = Some ''----'', date = Some ''----'', description = None\<rparr>)
   \<and> zip_check_content example_env
        \<lparr>files = [(''/'', Dir), (''/h'', Dir),
                  (''/h/update.dat'',
                   File (Archive [(CONFIG_FILENAME,
                      Xml (Element ''config'' None None
                             [Element ''release'' None (Some ''1.0'') []]))]))],
         oplog = [], dialogs = []\<rparr>
        ''/h/update.dat''
     = Inr False"
  by code_simp

text \<open>
  C4, amended: \<^verbatim>\<open>zip_check_content\<close> returns true if and only if the target (the given path
  cleaned, or the default file of the inbox) is a regular file, is a zip archive, has a
  name with the extension \<^verbatim>\<open>.zip\<close>, holds a member with the name of the manifest, and that
  member parses as XML. Whether the manifest has a \<^verbatim>\<open>release\<close> plays no part.
\<close>

theorem zip_check_content_true_iff:
  "zip_check_content e s input_path = Inr True
     \<longleftrightarrow> (\<exists>src members root.
            (if input_path \<noteq> '''' then Inr (path_clean e input_path)
             else path_get e ''zip install default file'' []) = Inr src
          \<and> stat s src = Some (File (Archive members))
          \<and> splitext_ext src = ''.zip''
          \<and> CONFIG_FILENAME \<in> set (map fst members)
          \<and> zip_member members CONFIG_FILENAME = Some (Xml root))"
proof -
  let ?src = "if input_path \<noteq> '''' then Inr (path_clean e input_path)
              else path_get e ''zip install default file'' []"
  show ?thesis
  proof (cases ?src)
    case (Inl err)
    then show ?thesis by (simp add: zip_check_content_def)
  next
    case (Inr src)
    have "zip_check_content e s input_path = Inr True
            \<longleftrightarrow> isfile s src \<and> is_zipfile s src \<and> (\<exists>v. zip_get_version e s src = Inr (True, v))"
      using Inr unfolding zip_check_content_def
      by (auto split: sum.splits if_splits)
    also have "\<dots> \<longleftrightarrow> (\<exists>members root. stat s src = Some (File (Archive members))
          \<and> splitext_ext src = ''.zip''
          \<and> CONFIG_FILENAME \<in> set (map fst members)
          \<and> zip_member members CONFIG_FILENAME = Some (Xml root))"
      using xml_get_version_Xml[of e]
      apply (auto simp: zip_get_version_valid isfile_def is_zipfile_def)
      apply (metis fst_conv image_eqI)
      done
    finally show ?thesis using Inr by simp
  qed
qed

theorem zip_check_content_true_iff_witness:
  "zip_check_content example_env
      (example_sys (Archive [(CONFIG_FILENAME, Xml (Element ''config'' None None []))])) ''''
     = Inr True
   \<and> (\<exists>src members root.
         path_get example_env ''zip install default file'' [] = Inr src
       \<and> stat (example_sys (Archive [(CONFIG_FILENAME, Xml (Element ''config'' None None []))]))
            src = Some (File (Archive members))
       \<and> splitext_ext src = ''.zip''
       \<and> CONFIG_FILENAME \<in> set (map fst members)
       \<and> zip_member members CONFIG_FILENAME = Some (Xml root))"
proof -
  have h: "zip_check_content example_env
      (example_sys (Archive [(CONFIG_FILENAME, Xml (Element ''config'' None None []))])) ''''
     = Inr True"
    by code_simp
  show ?thesis
    using h zip_check_content_true_iff[of example_env
        "example_sys (Archive [(CONFIG_FILENAME, Xml (Element ''config'' None None []))])" "''''"]
    by simp
qed

section \<open>The scratch directory and the inbox\<close>

lemma map_of_filter_key:
  "map_of (filter (\<lambda>(k, n). Q k) xs) k = (if Q k then map_of xs k else None)"
  by (induction xs) auto

lemma isfile_rmtree: "isfile (rmtree p s) k \<Longrightarrow> isfile s k"
  unfolding rmtree_def isfile_def stat_def
  by (auto simp: map_of_filter_key split: if_splits)

lemma stat_rmtree_other:
  "k \<noteq> p \<Longrightarrow> \<not> inside_dir p k \<Longrightarrow> stat (rmtree p s) k = stat s k"
  unfolding rmtree_def stat_def by (simp add: map_of_filter_key)


lemma os_remove_not_isfile: "\<not> isfile (state_of (os_remove p s)) p"
  unfolding os_remove_def isfile_def stat_def
  by (auto simp: map_of_filter_key split: option.splits node.splits)

lemma finally_block_not_isfile:
  assumes "path_get e ''zip install default file'' [] = Inr inbox"
  shows "\<not> isfile (state_of (finally_block e inbox temp_path s)) inbox"
proof -
  have r: "\<not> isfile (state_of (os_remove inbox s)) inbox"
    by (rule os_remove_not_isfile)
  show ?thesis
  proof (cases "os_remove inbox s")
    case (Ok u s')
    then have "\<not> isfile s' inbox" using r by simp
    then have "\<not> isfile (rmtree temp_path s') inbox" using isfile_rmtree by blast
    then show ?thesis using assms Ok by (simp add: finally_block_def)
  next
    case (Raise err s')
    then show ?thesis using assms r by (simp add: finally_block_def)
  qed
qed

lemma try_except_returns: "\<exists>r s'. try_except e zip_file_path temp_path s = Ok r s'"
  by (cases "try_block e zip_file_path temp_path s") (auto simp: try_except_def)

text \<open>
  The three ways past the check of the content: it holds and the root is there or is made,
  it fails, or it raises.
\<close>

lemma update_after_check:
  assumes "path_get e ''main'' [Some destination] = Inr dp"
    and "(if source = '''' then path_get e ''zip install default file'' []
          else Inr (path_clean e source)) = Inr zp"
    and "path_get e ''temp'' [] = Inr temp"
    and "zip_check_content e (rmtree temp s) zp = Inr True"
    and "(if \<not> exists (rmtree temp s) dp then makedirs dp (rmtree temp s)
          else Ok () (rmtree temp s)) = Ok u s2"
    and "try_except e zp temp s2 = Ok r s3"
  shows "update_data_from_zip e source s
           = (case finally_block e zp temp s3 of
                Raise err s4 \<Rightarrow> Raise err s4
              | Ok u' s4 \<Rightarrow> Ok (Some r) s4)"
  using assms by (simp add: update_data_from_zip_def Let_def)

lemma update_check_false:
  assumes "path_get e ''main'' [Some destination] = Inr dp"
    and "(if source = '''' then path_get e ''zip install default file'' []
          else Inr (path_clean e source)) = Inr zp"
    and "path_get e ''temp'' [] = Inr temp"
    and "zip_check_content e (rmtree temp s) zp = Inr False"
  shows "update_data_from_zip e source s
           = Ok None (warning_box (gettext e ''Info'') (gettext e ''Invalid data in zip file'')
                        (rmtree temp s))"
  using assms by (simp add: update_data_from_zip_def Let_def)

lemma update_check_raises:
  assumes "path_get e ''main'' [Some destination] = Inr dp"
    and "(if source = '''' then path_get e ''zip install default file'' []
          else Inr (path_clean e source)) = Inr zp"
    and "path_get e ''temp'' [] = Inr temp"
    and "zip_check_content e (rmtree temp s) zp = Inl err"
  shows "update_data_from_zip e source s = Raise err (rmtree temp s)"
  using assms by (simp add: update_data_from_zip_def Let_def)

text \<open>
  C8: the \<^verbatim>\<open>finally\<close> block removes the file of the inbox before the scratch directory, and
  \<^verbatim>\<open>os.remove\<close> raises when the file is no longer there. An archive in the inbox whose
  manifest lists the inbox file itself (\<^verbatim>\<open>remove: codeinpython_update.zip\<close>) is extracted,
  removes its own file in the loop, and the call ends with \<^verbatim>\<open>FileNotFoundError\<close> raised in
  the \<^verbatim>\<open>finally\<close> block while the scratch directory still exists.
\<close>

theorem scratch_directory_left_behind:
  "path_get example_env ''temp'' [] = Inr ''/h/mu_code/codeinpython_env/temp''
   \<and> raised (update_data_from_zip example_env ''''
        (example_sys (Archive [(CONFIG_FILENAME,
           manifest [Element ''remove'' None (Some ''codeinpython_update.zip'') []])])))
       = Some (FileNotFoundError ''/h/mu_code/codeinpython_env/codeinpython_update.zip'')
   \<and> isdir (state_of (update_data_from_zip example_env ''''
        (example_sys (Archive [(CONFIG_FILENAME,
           manifest [Element ''remove'' None (Some ''codeinpython_update.zip'') []])]))))
        ''/h/mu_code/codeinpython_env/temp''"
  by code_simp

text \<open>
  C9, as stated, fails on the path where the check of the content fails: with an archive
  without manifest in the inbox, \<^verbatim>\<open>update_data_from_zip\<close> shows its message and returns,
  and the file of the inbox is still there.
\<close>

theorem inbox_kept_when_content_invalid:
  "path_get example_env ''zip install default file'' []
     = Inr ''/h/mu_code/codeinpython_env/codeinpython_update.zip''
   \<and> zip_check_content example_env (example_sys (Archive [])) '''' = Inr False
   \<and> update_data_from_zip example_env '''' (example_sys (Archive []))
       = Ok None (warning_box ''Info'' ''Invalid data in zip file'' (example_sys (Archive [])))
   \<and> isfile (state_of (update_data_from_zip example_env '''' (example_sys (Archive []))))
        ''/h/mu_code/codeinpython_env/codeinpython_update.zip''"
  by code_simp

text \<open>
  C9, amended: for a call on the inbox, three cases. When the check of the content holds (and
  the root directory is there or is made), then however the \<^verbatim>\<open>try\<close> statement ends, with
  true, with false after a caught exception, or with an exception raised by the \<^verbatim>\<open>finally\<close>
  block itself, no regular file is left at the path of the inbox when the call ends. When
  the check returns false, the call clears the scratch directory, shows the message
  \<^verbatim>\<open>Invalid data in zip file\<close> and returns, before the \<^verbatim>\<open>try\<close> statement: what is at the path
  of the inbox stays. When the check itself raises, that exception leaves the call, no
  message is shown, and what is at the path of the inbox stays.
\<close>

theorem inbox_consumed_after_try:
  "(path_get e ''main'' [Some destination] = Inr dp
      \<and> (if source = '''' then path_get e ''zip install default file'' []
          else Inr (path_clean e source)) = Inr inbox
      \<and> path_get e ''zip install default file'' [] = Inr inbox
      \<and> path_get e ''temp'' [] = Inr temp
      \<and> zip_check_content e (rmtree temp s) inbox = Inr True
      \<and> (if \<not> exists (rmtree temp s) dp then makedirs dp (rmtree temp s)
          else Ok () (rmtree temp s)) = Ok u s2
    \<longrightarrow> \<not> isfile (state_of (update_data_from_zip e source s)) inbox)
   \<and> (path_get e ''main'' [Some destination] = Inr dp
      \<and> (if source = '''' then path_get e ''zip install default file'' []
          else Inr (path_clean e source)) = Inr inbox
      \<and> path_get e ''temp'' [] = Inr temp
      \<and> zip_check_content e (rmtree temp s) inbox = Inr False
    \<longrightarrow> update_data_from_zip e source s
          = Ok None (warning_box (gettext e ''Info'') (gettext e ''Invalid data in zip file'')
                       (rmtree temp s))
        \<and> (inbox \<noteq> temp \<and> \<not> inside_dir temp inbox
            \<longrightarrow> stat (state_of (update_data_from_zip e source s)) inbox = stat s inbox))
   \<and> (path_get e ''main'' [Some destination] = Inr dp
      \<and> (if source = '''' then path_get e ''zip install default file'' []
          else Inr (path_clean e source)) = Inr inbox
      \<and> path_get e ''temp'' [] = Inr temp
      \<and> zip_check_content e (rmtree temp s) inbox = Inl err
    \<longrightarrow> update_data_from_zip e source s = Raise err (rmtree temp s)
        \<and> (inbox \<noteq> temp \<and> \<not> inside_dir temp inbox
            \<longrightarrow> stat (state_of (update_data_from_zip e source s)) inbox = stat s inbox))"
proof -
  have a: "path_get e ''main'' [Some destination] = Inr dp
      \<and> (if source = '''' then path_get e ''zip install default file'' []
          else Inr (path_clean e source)) = Inr inbox
      \<and> path_get e ''zip install default file'' [] = Inr inbox
      \<and> path_get e ''temp'' [] = Inr temp
      \<and> zip_check_content e (rmtree temp s) inbox = Inr True
      \<and> (if \<not> exists (rmtree temp s) dp then makedirs dp (rmtree temp s)
          else Ok () (rmtree temp s)) = Ok u s2
    \<longrightarrow> \<not> isfile (state_of (update_data_from_zip e source s)) inbox"
  proof (intro impI, elim conjE)
    assume dp: "path_get e ''main'' [Some destination] = Inr dp"
      and zp: "(if source = '''' then path_get e ''zip install default file'' []
          else Inr (path_clean e source)) = Inr inbox"
      and ib: "path_get e ''zip install default file'' [] = Inr inbox"
      and tp: "path_get e ''temp'' [] = Inr temp"
      and ck: "zip_check_content e (rmtree temp s) inbox = Inr True"
      and mk: "(if \<not> exists (rmtree temp s) dp then makedirs dp (rmtree temp s)
          else Ok () (rmtree temp s)) = Ok u s2"
    obtain r s3 where t: "try_except e inbox temp s2 = Ok r s3"
      using try_except_returns by blast
    have "state_of (update_data_from_zip e source s)
            = state_of (finally_block e inbox temp s3)"
      unfolding update_after_check[OF dp zp tp ck mk t]
      by (cases "finally_block e inbox temp s3") simp_all
    then show "\<not> isfile (state_of (update_data_from_zip e source s)) inbox"
      using finally_block_not_isfile[OF ib] by simp
  qed
  have b: "path_get e ''main'' [Some destination] = Inr dp
      \<and> (if source = '''' then path_get e ''zip install default file'' []
          else Inr (path_clean e source)) = Inr inbox
      \<and> path_get e ''temp'' [] = Inr temp
      \<and> zip_check_content e (rmtree temp s) inbox = Inr False
    \<longrightarrow> update_data_from_zip e source s
          = Ok None (warning_box (gettext e ''Info'') (gettext e ''Invalid data in zip file'')
                       (rmtree temp s))
        \<and> (inbox \<noteq> temp \<and> \<not> inside_dir temp inbox
            \<longrightarrow> stat (state_of (update_data_from_zip e source s)) inbox = stat s inbox)"
  proof (intro impI, elim conjE)
    assume dp: "path_get e ''main'' [Some destination] = Inr dp"
      and zp: "(if source = '''' then path_get e ''zip install default file'' []
          else Inr (path_clean e source)) = Inr inbox"
      and tp: "path_get e ''temp'' [] = Inr temp"
      and ck: "zip_check_content e (rmtree temp s) inbox = Inr False"
    note eq = update_check_false[OF dp zp tp ck]
    have "inbox \<noteq> temp \<and> \<not> inside_dir temp inbox
            \<longrightarrow> stat (state_of (update_data_from_zip e source s)) inbox = stat s inbox"
      using stat_rmtree_other[of inbox temp s]
      by (simp add: eq warning_box_def stat_def)
    then show "update_data_from_zip e source s
          = Ok None (warning_box (gettext e ''Info'') (gettext e ''Invalid data in zip file'')
                       (rmtree temp s))
        \<and> (inbox \<noteq> temp \<and> \<not> inside_dir temp inbox
            \<longrightarrow> stat (state_of (update_data_from_zip e source s)) inbox = stat s inbox)"
      using eq by blast
  qed
  have c: "path_get e ''main'' [Some destination] = Inr dp
      \<and> (if source = '''' then path_get e ''zip install default file'' []
          else Inr (path_clean e source)) = Inr inbox
      \<and> path_get e ''temp'' [] = Inr temp
      \<and> zip_check_content e (rmtree temp s) inbox = Inl err
    \<longrightarrow> update_data_from_zip e source s = Raise err (rmtree temp s)
        \<and> (inbox \<noteq> temp \<and> \<not> inside_dir temp inbox
            \<longrightarrow> stat (state_of (update_data_from_zip e source s)) inbox = stat s inbox)"
  proof (intro impI, elim conjE)
    assume dp: "path_get e ''main'' [Some destination] = Inr dp"
      and zp: "(if source = '''' then path_get e ''zip install default file'' []
          else Inr (path_clean e source)) = Inr inbox"
      and tp: "path_get e ''temp'' [] = Inr temp"
      and ck: "zip_check_content e (rmtree temp s) inbox = Inl err"
    note eq = update_check_raises[OF dp zp tp ck]
    have "inbox \<noteq> temp \<and> \<not> inside_dir temp inbox
            \<longrightarrow> stat (state_of (update_data_from_zip e source s)) inbox = stat s inbox"
      using stat_rmtree_other[of inbox temp s] by (simp add: eq)
    then show "update_data_from_zip e source s = Raise err (rmtree temp s)
        \<and> (inbox \<noteq> temp \<and> \<not> inside_dir temp inbox
            \<longrightarrow> stat (state_of (update_data_from_zip e source s)) inbox = stat s inbox)"
      using eq by blast
  qed
  show ?thesis
    apply (intro conjI)
      apply (rule a)
     apply (rule b)
    apply (rule c)
    done
qed

theorem inbox_consumed_after_try_witness:
  "path_get example_env ''main'' [Some destination] = Inr ''/h/mu_code/codeinpython_env''
   \<and> path_get example_env ''zip install default file'' []
       = Inr ''/h/mu_code/codeinpython_env/codeinpython_update.zip''
   \<and> path_get example_env ''temp'' [] = Inr ''/h/mu_code/codeinpython_env/temp''
   \<and> ''/h/mu_code/codeinpython_env/codeinpython_update.zip''
       \<noteq> ''/h/mu_code/codeinpython_env/temp''
   \<and> \<not> inside_dir ''/h/mu_code/codeinpython_env/temp''
         ''/h/mu_code/codeinpython_env/codeinpython_update.zip''
   \<and> zip_check_content example_env
        (rmtree ''/h/mu_code/codeinpython_env/temp''
           (example_sys (Archive [(CONFIG_FILENAME,
              manifest [Element ''remove'' None (Some ''codeinpython_update.zip'') []])])))
        ''/h/mu_code/codeinpython_env/codeinpython_update.zip'' = Inr True
   \<and> exists (rmtree ''/h/mu_code/codeinpython_env/temp''
           (example_sys (Archive [(CONFIG_FILENAME,
              manifest [Element ''remove'' None (Some ''codeinpython_update.zip'') []])])))
        ''/h/mu_code/codeinpython_env''
   \<and> raised (update_data_from_zip example_env ''''
        (example_sys (Archive [(CONFIG_FILENAME,
           manifest [Element ''remove'' None (Some ''codeinpython_update.zip'') []])])))
       = Some (FileNotFoundError ''/h/mu_code/codeinpython_env/codeinpython_update.zip'')
   \<and> \<not> isfile (state_of (update_data_from_zip example_env ''''
        (example_sys (Archive [(CONFIG_FILENAME,
           manifest [Element ''remove'' None (Some ''codeinpython_update.zip'') []])]))))
        ''/h/mu_code/codeinpython_env/codeinpython_update.zip''
   \<and> zip_check_content example_env
        (rmtree ''/h/mu_code/codeinpython_env/temp'' (example_sys (Archive [])))
        ''/h/mu_code/codeinpython_env/codeinpython_update.zip'' = Inr False
   \<and> update_data_from_zip example_env '''' (example_sys (Archive []))
       = Ok None (warning_box ''Info'' ''Invalid data in zip file'' (example_sys (Archive [])))
   \<and> stat (state_of (update_data_from_zip example_env '''' (example_sys (Archive []))))
        ''/h/mu_code/codeinpython_env/codeinpython_update.zip'' = Some (File (Archive []))
   \<and> zip_check_content example_env
        (rmtree ''/h/mu_code/codeinpython_env/temp'' (example_sys (Bytes ''x'')))
        ''/h/mu_code/codeinpython_env/codeinpython_update.zip''
       = Inl (UnboundLocalError ''_'')
   \<and> update_data_from_zip example_env '''' (example_sys (Bytes ''x''))
       = Raise (UnboundLocalError ''_'') (example_sys (Bytes ''x''))
   \<and> stat (state_of (update_data_from_zip example_env '''' (example_sys (Bytes ''x''))))
        ''/h/mu_code/codeinpython_env/codeinpython_update.zip'' = Some (File (Bytes ''x''))"
proof -
  let ?main = "''/h/mu_code/codeinpython_env''"
  let ?inbox = "''/h/mu_code/codeinpython_env/codeinpython_update.zip''"
  let ?temp = "''/h/mu_code/codeinpython_env/temp''"
  let ?s1 = "example_sys (Archive [(CONFIG_FILENAME,
              manifest [Element ''remove'' None (Some ''codeinpython_update.zip'') []])])"
  let ?s2 = "example_sys (Archive [])"
  let ?s3 = "example_sys (Bytes ''x'')"
  have dp: "path_get example_env ''main'' [Some destination] = Inr ?main" by code_simp
  have ib: "path_get example_env ''zip install default file'' [] = Inr ?inbox" by code_simp
  have zp: "(if '''' = '''' then path_get example_env ''zip install default file'' []
             else Inr (path_clean example_env '''')) = Inr ?inbox"
    using ib by simp
  have tp: "path_get example_env ''temp'' [] = Inr ?temp" by code_simp
  have ne: "?inbox \<noteq> ?temp" by simp
  have ni: "\<not> inside_dir ?temp ?inbox" by code_simp
  have r1: "rmtree ?temp ?s1 = ?s1" by code_simp
  have r2: "rmtree ?temp ?s2 = ?s2" by code_simp
  have r3: "rmtree ?temp ?s3 = ?s3" by code_simp
  have a1: "zip_check_content example_env (rmtree ?temp ?s1) ?inbox = Inr True" by code_simp
  have a2: "exists (rmtree ?temp ?s1) ?main" by code_simp
  have a3: "(if \<not> exists (rmtree ?temp ?s1) ?main then makedirs ?main (rmtree ?temp ?s1)
             else Ok () (rmtree ?temp ?s1)) = Ok () ?s1"
    using a2 r1 by simp
  have a4: "raised (update_data_from_zip example_env '''' ?s1)
              = Some (FileNotFoundError ?inbox)" by code_simp
  have b1: "zip_check_content example_env (rmtree ?temp ?s2) ?inbox = Inr False" by code_simp
  have b2: "stat ?s2 ?inbox = Some (File (Archive []))" by code_simp
  have c1: "zip_check_content example_env (rmtree ?temp ?s3) ?inbox
              = Inl (UnboundLocalError ''_'')" by code_simp
  have c2: "stat ?s3 ?inbox = Some (File (Bytes ''x''))" by code_simp
  note ta = inbox_consumed_after_try[where e = example_env and dp = ?main and source = "''''"
      and inbox = ?inbox and temp = ?temp and s = ?s1 and u = "()" and ?s2.0 = ?s1,
      THEN conjunct1]
  note tb = inbox_consumed_after_try[where e = example_env and dp = ?main and source = "''''"
      and inbox = ?inbox and temp = ?temp and s = ?s2, THEN conjunct2, THEN conjunct1]
  note tc = inbox_consumed_after_try[where e = example_env and dp = ?main and source = "''''"
      and inbox = ?inbox and temp = ?temp and s = ?s3
      and err = "UnboundLocalError ''_''", THEN conjunct2, THEN conjunct2]
  have ra: "\<not> isfile (state_of (update_data_from_zip example_env '''' ?s1)) ?inbox"
    using ta dp zp ib tp a1 a3 by blast
  have g1: "gettext example_env ''Info'' = ''Info''"
    by (simp add: example_env_def posix_env_def)
  have g2: "gettext example_env ''Invalid data in zip file'' = ''Invalid data in zip file''"
    by (simp add: example_env_def posix_env_def)
  from tb dp zp tp b1
  have eb: "update_data_from_zip example_env '''' ?s2
              = Ok None (warning_box (gettext example_env ''Info'')
                  (gettext example_env ''Invalid data in zip file'') (rmtree ?temp ?s2))
            \<and> (?inbox \<noteq> ?temp \<and> \<not> inside_dir ?temp ?inbox
                \<longrightarrow> stat (state_of (update_data_from_zip example_env '''' ?s2)) ?inbox
                    = stat ?s2 ?inbox)"
    by blast
  from eb have eb1: "update_data_from_zip example_env '''' ?s2
              = Ok None (warning_box (gettext example_env ''Info'')
                  (gettext example_env ''Invalid data in zip file'') (rmtree ?temp ?s2))"
    by (rule conjunct1)
  from eb ne ni have eb2: "stat (state_of (update_data_from_zip example_env '''' ?s2)) ?inbox
                    = stat ?s2 ?inbox"
    by blast
  have rb1: "update_data_from_zip example_env '''' ?s2
              = Ok None (warning_box ''Info'' ''Invalid data in zip file'' ?s2)"
    using eb1 by (simp only: g1 g2 r2)
  have rb2: "stat (state_of (update_data_from_zip example_env '''' ?s2)) ?inbox
                = Some (File (Archive []))"
    using eb2 b2 by (rule trans)
  from tc dp zp tp c1
  have ec: "update_data_from_zip example_env '''' ?s3
              = Raise (UnboundLocalError ''_'') (rmtree ?temp ?s3)
            \<and> (?inbox \<noteq> ?temp \<and> \<not> inside_dir ?temp ?inbox
                \<longrightarrow> stat (state_of (update_data_from_zip example_env '''' ?s3)) ?inbox
                    = stat ?s3 ?inbox)"
    by blast
  from ec have ec1: "update_data_from_zip example_env '''' ?s3
              = Raise (UnboundLocalError ''_'') (rmtree ?temp ?s3)"
    by (rule conjunct1)
  from ec ne ni have ec2: "stat (state_of (update_data_from_zip example_env '''' ?s3)) ?inbox
                    = stat ?s3 ?inbox"
    by blast
  have rc1: "update_data_from_zip example_env '''' ?s3 = Raise (UnboundLocalError ''_'') ?s3"
    using ec1 by (simp only: r3)
  have rc2: "stat (state_of (update_data_from_zip example_env '''' ?s3)) ?inbox
                = Some (File (Bytes ''x''))"
    using ec2 c2 by (rule trans)
  show ?thesis
    using dp ib tp ne ni a1 a2 a4 ra b1 rb1 rb2 c1 rc1 rc2 by blast
qed

section \<open>The two passes over an update section\<close>

lemma appends_refl: "appends K s s"
  by (simp add: appends_def)

lemma appends_trans: "appends K s s' \<Longrightarrow> appends K s' s'' \<Longrightarrow> appends K s s''"
  unfolding appends_def by (metis append.assoc list_all_append)

lemma appends_rmtree: "appends destructive s (rmtree p s)"
  by (simp add: appends_def rmtree_def)

lemma appends_os_remove: "appends destructive s (state_of (os_remove p s))"
  by (simp add: appends_def os_remove_def split: option.splits node.splits)

lemma appends_mkdir: "appends additive s (state_of (mkdir p s))"
  by (simp add: appends_def mkdir_def)

lemma appends_write_file: "appends additive s (state_of (write_file p b s))"
  by (simp add: appends_def write_file_def)

lemma appends_copy2: "appends additive s (state_of (copy2 src dest s))"
  using appends_write_file
  by (simp add: copy2_def Let_def appends_refl split: option.splits node.splits)

lemma appends_makedirs: "appends additive s (state_of (makedirs name s))"
proof (induction name s rule: makedirs.induct)
  case (1 name s)
  let ?h = "fst (makedirs_parts name)"
  let ?t = "snd (makedirs_parts name)"
  show ?case
  proof (cases "?h \<noteq> '''' \<and> ?t \<noteq> '''' \<and> \<not> exists s ?h")
    case False
    then have "makedirs name s = mkdir name s"
      by (subst makedirs.simps) auto
    then show ?thesis using appends_mkdir by simp
  next
    case True
    then have ih: "appends additive s (state_of (makedirs ?h s))"
      using "1.IH" by blast
    have step: "\<And>s'. appends additive s s'
              \<Longrightarrow> appends additive s (state_of (if ?t = ''.'' then Ok () s' else mkdir name s'))"
      using appends_mkdir appends_trans by (auto simp: appends_refl)
    show ?thesis
    proof (cases "makedirs ?h s")
      case (Ok u s')
      then have "makedirs name s = (if ?t = ''.'' then Ok () s' else mkdir name s')"
        using True by (subst makedirs.simps) simp
      then show ?thesis using step[of s'] ih Ok by simp
    next
      case (Raise err s')
      show ?thesis
      proof (cases "\<exists>x. err = FileExistsError x")
        case fe: True
        then have "makedirs name s = (if ?t = ''.'' then Ok () s' else mkdir name s')"
          using True Raise by (subst makedirs.simps) auto
        then show ?thesis using step[of s'] ih Raise by simp
      next
        case nfe: False
        then have "makedirs name s = Raise err s'"
          using True Raise by (subst makedirs.simps) (cases err, auto)
        then show ?thesis using ih Raise by simp
      qed
    qed
  qed
qed

lemma appends_makedirs_if:
  "appends additive s (state_of (if c then makedirs p s else Ok () s))"
  by (simp add: appends_makedirs appends_refl)

lemma appends_recursive_overwrite:
  "appends additive s (state_of (recursive_overwrite depth src dest ignore s))"
  "appends additive s (state_of (overwrite_files depth src dest ignore ignored fs s))"
proof (induction depth src dest ignore s and depth src dest ignore ignored fs s
       rule: recursive_overwrite_overwrite_files.induct)
  case (1 src dest ignore s)
  then show ?case by (simp add: appends_refl)
next
  case (2 depth src dest ignore s)
  show ?case
  proof (cases "isdir s src")
    case True
    let ?m = "if \<not> isdir s dest then makedirs dest s else Ok () s"
    have m: "appends additive s (state_of ?m)" by (rule appends_makedirs_if)
    show ?thesis
    proof (cases ?m)
      case (Raise err s')
      then show ?thesis using True m by simp
    next
      case (Ok u s')
      let ?fs = "listdir s' src"
      let ?ig = "case ignore of Some f \<Rightarrow> f src ?fs | None \<Rightarrow> {}"
      have "appends additive s' (state_of (overwrite_files depth src dest ignore ?ig ?fs s'))"
        using "2.IH"[OF True Ok refl refl] .
      moreover have "appends additive s s'" using m Ok by simp
      ultimately have "appends additive s
          (state_of (overwrite_files depth src dest ignore ?ig ?fs s'))"
        using appends_trans by blast
      then show ?thesis using True Ok by (simp add: Let_def)
    qed
  next
    case False
    let ?m = "if \<not> isdir s (dirname dest) then makedirs (dirname dest) s else Ok () s"
    have m: "appends additive s (state_of ?m)" by (rule appends_makedirs_if)
    show ?thesis
    proof (cases ?m)
      case (Raise err s')
      then have "state_of (recursive_overwrite (Suc depth) src dest ignore s) = s'"
        using False by (cases err) simp_all
      then show ?thesis using m Raise by simp
    next
      case (Ok u s')
      have c: "appends additive s' (state_of (copy2 src dest s'))" by (rule appends_copy2)
      have "state_of (recursive_overwrite (Suc depth) src dest ignore s)
              = state_of (copy2 src dest s')"
      proof (cases "copy2 src dest s'")
        case o: (Ok u' s'')
        then show ?thesis using False Ok by simp
      next
        case r: (Raise err s'')
        then show ?thesis using False Ok by (cases err) simp_all
      qed
      moreover have "appends additive s s'" using m Ok by simp
      ultimately show ?thesis using c appends_trans by metis
    qed
  qed
next
  case (3 depth src dest ignore ignored s)
  then show ?case by (simp add: appends_refl)
next
  case (4 depth src dest ignore ignored f fs s)
  show ?case
  proof (cases "f \<in> ignored")
    case True
    then show ?thesis using "4.IH"(3) by simp
  next
    case False
    have r: "appends additive s
               (state_of (recursive_overwrite depth (os_join src f) (os_join dest f) ignore s))"
      using "4.IH"(1)[OF False] .
    show ?thesis
    proof (cases "recursive_overwrite depth (os_join src f) (os_join dest f) ignore s")
      case (Raise err s')
      then show ?thesis using False r by simp
    next
      case (Ok u s')
      have "appends additive s'
              (state_of (overwrite_files depth src dest ignore ignored fs s'))"
        using "4.IH"(2)[OF False Ok] .
      moreover have "appends additive s s'" using r Ok by simp
      moreover have "overwrite_files depth src dest ignore ignored (f # fs) s
                       = overwrite_files depth src dest ignore ignored fs s'"
        using False Ok by simp
      ultimately show ?thesis using appends_trans by metis
    qed
  qed
qed

lemma appends_remove_entry:
  "appends destructive s (state_of (remove_entry e el errs s))"
proof (cases "path_get e ''main'' [Some destination, el_text el]")
  case (Inl err)
  then show ?thesis by (simp add: remove_entry_def appends_refl)
next
  case (Inr p)
  show ?thesis
  proof (cases "valid_path e p False")
    case (Inl err)
    then show ?thesis using Inr by (simp add: remove_entry_def appends_refl)
  next
    case v: (Inr ok)
    have "state_of (remove_entry e el errs s)
            = (if ok then (if isdir s p then rmtree p s
                           else if isfile s p then state_of (os_remove p s) else s)
               else s)"
      using Inr v by (simp add: remove_entry_def split: res.splits)
    then show ?thesis
      using appends_rmtree appends_os_remove appends_refl by simp
  qed
qed

lemma appends_remove_loop:
  "appends destructive s (state_of (remove_loop e els errs s))"
proof (induction els arbitrary: errs s)
  case Nil
  then show ?case by (simp add: appends_refl)
next
  case (Cons el els)
  show ?case
  proof (cases "el_tag el = ''remove''")
    case False
    then show ?thesis using Cons.IH by simp
  next
    case True
    have r: "appends destructive s (state_of (remove_entry e el errs s))"
      by (rule appends_remove_entry)
    show ?thesis
    proof (cases "remove_entry e el errs s")
      case (Raise err s')
      then show ?thesis using True r by simp
    next
      case (Ok errs' s')
      then have "appends destructive s s'" using r by simp
      moreover have "remove_loop e (el # els) errs s = remove_loop e els errs' s'"
        using True Ok by simp
      ultimately show ?thesis using Cons.IH[of s' errs'] appends_trans by metis
    qed
  qed
qed

lemma appends_copy_entry:
  "appends additive s (state_of (copy_entry e el errs s))"
proof (cases "path_get e ''temp'' [el_text el]")
  case (Inl err)
  then show ?thesis by (simp add: copy_entry_def appends_refl)
next
  case (Inr src)
  show ?thesis
  proof (cases "path_get e ''main'' [Some destination, el_text el]")
    case (Inl err)
    then show ?thesis using Inr by (simp add: copy_entry_def appends_refl)
  next
    case d: (Inr dest)
    have "state_of (copy_entry e el errs s)
            = (if \<not> exists s src then s
               else state_of (recursive_overwrite (recursion_limit e) src dest None s))"
      using Inr d by (simp add: copy_entry_def split: res.splits)
    then show ?thesis
      using appends_recursive_overwrite(1) appends_refl by simp
  qed
qed

lemma appends_copy_loop:
  "appends additive s (state_of (copy_loop e els errs s))"
proof (induction els arbitrary: errs s)
  case Nil
  then show ?case by (simp add: appends_refl)
next
  case (Cons el els)
  show ?case
  proof (cases "el_tag el = ''copy''")
    case False
    then show ?thesis using Cons.IH by simp
  next
    case True
    have r: "appends additive s (state_of (copy_entry e el errs s))"
      by (rule appends_copy_entry)
    show ?thesis
    proof (cases "copy_entry e el errs s")
      case (Raise err s')
      then show ?thesis using True r by simp
    next
      case (Ok errs' s')
      then have "appends additive s s'" using r by simp
      moreover have "copy_loop e (el # els) errs s = copy_loop e els errs' s'"
        using True Ok by simp
      ultimately show ?thesis using Cons.IH[of s' errs'] appends_trans by metis
    qed
  qed
qed

lemma root_loop_no_update:
  "\<forall>c \<in> set cs. el_tag c \<noteq> ''update'' \<Longrightarrow> root_loop e cs errs s = Ok errs s"
  by (induction cs) (simp_all add: update_child_def)

lemma root_loop_append:
  "root_loop e (xs @ ys) errs s
     = (case root_loop e xs errs s of
          Raise err s' \<Rightarrow> Raise err s'
        | Ok errs' s' \<Rightarrow> root_loop e ys errs' s')"
proof (induction xs arbitrary: errs s)
  case Nil
  then show ?case by simp
next
  case (Cons x xs)
  then show ?case by (cases "update_child e x errs s") simp_all
qed

lemma root_loop_single_update:
  assumes "filter (\<lambda>c. el_tag c = ''update'') children = [u]"
  shows "root_loop e children errs s = update_child e u errs s"
proof -
  from filter_eq_ConsD[OF assms] obtain pre post where c: "children = pre @ u # post"
      and pre: "\<forall>c \<in> set pre. \<not> el_tag c = ''update''"
      and post: "[] = filter (\<lambda>c. el_tag c = ''update'') post"
    by blast
  from post have "filter (\<lambda>c. el_tag c = ''update'') post = []" by simp
  then have post': "\<forall>c \<in> set post. el_tag c \<noteq> ''update''"
    by (simp add: filter_empty_conv)
  have p1: "root_loop e pre errs s = Ok errs s"
    using root_loop_no_update pre by blast
  have p2: "\<And>errs' s'. root_loop e post errs' s' = Ok errs' s'"
    using root_loop_no_update post' by blast
  have "root_loop e children errs s = root_loop e (u # post) errs s"
    unfolding c by (simp only: root_loop_append p1 res.case)
  also have "\<dots> = update_child e u errs s"
    by (cases "update_child e u errs s") (simp_all add: p2)
  finally show ?thesis .
qed

text \<open>
  C6: for a manifest with one \<^verbatim>\<open>update\<close> section, the loop over the children of the root is
  the loop over all \<^verbatim>\<open>remove\<close> entries of the section followed, if that did not raise, by
  the loop over all its \<^verbatim>\<open>copy\<close> entries; and the changes it makes to the file system are
  a sequence of removals followed by a sequence of additions, never interleaved.
\<close>

theorem removes_before_copies:
  "filter (\<lambda>c. el_tag c = ''update'') children = [u]
   \<longrightarrow> root_loop e children errs s
         = (case remove_loop e (el_children u) errs s of
              Raise err s' \<Rightarrow> Raise err s'
            | Ok errs' s' \<Rightarrow> copy_loop e (el_children u) errs' s')
       \<and> (\<exists>rs cs. oplog (state_of (root_loop e children errs s)) = oplog s @ rs @ cs
              \<and> list_all destructive rs \<and> list_all additive cs)"
proof (intro impI)
  assume f: "filter (\<lambda>c. el_tag c = ''update'') children = [u]"
  from filter_eq_ConsD[OF f] have tag: "el_tag u = ''update''" by blast
  let ?r = "remove_loop e (el_children u) errs s"
  have eq: "root_loop e children errs s
         = (case ?r of
              Raise err s' \<Rightarrow> Raise err s'
            | Ok errs' s' \<Rightarrow> copy_loop e (el_children u) errs' s')"
    using root_loop_single_update[OF f] tag by (simp add: update_child_def)
  have d: "appends destructive s (state_of ?r)" by (rule appends_remove_loop)
  have tr: "\<exists>rs cs. oplog (state_of (root_loop e children errs s)) = oplog s @ rs @ cs
              \<and> list_all destructive rs \<and> list_all additive cs"
  proof (cases ?r)
    case (Raise err s')
    then have "state_of (root_loop e children errs s) = s'" using eq by simp
    moreover from d Raise obtain rs where "oplog s' = oplog s @ rs" "list_all destructive rs"
      by (auto simp: appends_def)
    ultimately have "oplog (state_of (root_loop e children errs s)) = oplog s @ rs @ []
          \<and> list_all destructive rs \<and> list_all additive []"
      by simp
    then show ?thesis by blast
  next
    case (Ok errs' s')
    then have st: "state_of (root_loop e children errs s)
                     = state_of (copy_loop e (el_children u) errs' s')"
      using eq by simp
    from d Ok obtain rs where rs: "oplog s' = oplog s @ rs" "list_all destructive rs"
      by (auto simp: appends_def)
    have "appends additive s' (state_of (copy_loop e (el_children u) errs' s'))"
      by (rule appends_copy_loop)
    then obtain cs where cs: "oplog (state_of (copy_loop e (el_children u) errs' s'))
                                = oplog s' @ cs" "list_all additive cs"
      by (auto simp: appends_def)
    have "oplog (state_of (root_loop e children errs s)) = oplog s @ rs @ cs
          \<and> list_all destructive rs \<and> list_all additive cs"
      using st rs cs by simp
    then show ?thesis by blast
  qed
  show "root_loop e children errs s
         = (case remove_loop e (el_children u) errs s of
              Raise err s' \<Rightarrow> Raise err s'
            | Ok errs' s' \<Rightarrow> copy_loop e (el_children u) errs' s')
       \<and> (\<exists>rs cs. oplog (state_of (root_loop e children errs s)) = oplog s @ rs @ cs
              \<and> list_all destructive rs \<and> list_all additive cs)"
    using eq tr by blast
qed

theorem removes_before_copies_witness:
  "filter (\<lambda>c. el_tag c = ''update'')
      [Element ''release'' None (Some ''1.0'') [], example_update] = [example_update]
   \<and> root_loop example_env [Element ''release'' None (Some ''1.0'') [], example_update] ''''
        extracted_sys
       = (case remove_loop example_env (el_children example_update) '''' extracted_sys of
            Raise err s' \<Rightarrow> Raise err s'
          | Ok errs' s' \<Rightarrow> copy_loop example_env (el_children example_update) errs' s')
   \<and> oplog (state_of (root_loop example_env
          [Element ''release'' None (Some ''1.0'') [], example_update] '''' extracted_sys))
       = [Op_remove ''/h/mu_code/codeinpython_env/old'',
          Op_write ''/h/mu_code/codeinpython_env/new.py'']"
proof -
  have h: "filter (\<lambda>c. el_tag c = ''update'')
      [Element ''release'' None (Some ''1.0'') [], example_update] = [example_update]"
    by code_simp
  have o: "oplog (state_of (root_loop example_env
          [Element ''release'' None (Some ''1.0'') [], example_update] '''' extracted_sys))
       = [Op_remove ''/h/mu_code/codeinpython_env/old'',
          Op_write ''/h/mu_code/codeinpython_env/new.py'']"
    by code_simp
  show ?thesis
    using h o removes_before_copies[of "[Element ''release'' None (Some ''1.0'') [], example_update]"
        example_update example_env "''''" extracted_sys]
    by blast
qed

section \<open>Entries that cannot be applied\<close>


lemma path_create_temp: "\<exists>r. path_create e ''temp'' ps = Inr r"
  by (simp add: path_create_def path_struct_def)
























end
